theory Spec2Isabelle
  imports Complex_Main "HOL-Library.Word"
begin

unbundle bit_operations_syntax

section \<open>The candidate selector for charm baryon \<rightarrow> Xi Pi\<close>

text \<open>
  Embedding of \<^verbatim>\<open>HfCandidateSelectorToXiPi::process\<close>
  (PWGHF/TableProducer/candidateSelectorToXiPi.cxx).

  Conventions of the embedding:
  \<^item> \<^verbatim>\<open>double\<close> and \<^verbatim>\<open>float\<close> values are real numbers (finite values, exact
    arithmetic); \<^verbatim>\<open>int\<close> values are integers; \<^verbatim>\<open>int8_t\<close> is an 8-bit word read
    with \<open>sint\<close>.
  \<^item> A table is the lookup function that \<^verbatim>\<open>rawIteratorAt\<close> implements, from a
    global row index to the row. The indices of a candidate are those of existing rows;
    what the program does with an index outside its table is not modelled.
  \<^item> The histogram registry is the sequence of its \<^verbatim>\<open>fill\<close> calls, in program order.
  \<^item> \<^verbatim>\<open>LOGF(fatal, ...)\<close> ends the run: it is the error value \<open>Fatal\<close>, which keeps
    the message and the task's state at that point.
\<close>

subsection \<open>Data\<close>

text \<open>The columns of a track row that the selector reads itself. Columns read only by
  the track-quality and PID helpers live in the extension of the record.\<close>

record track =
  hasTPC :: bool
  hasTOF :: bool
  tpcNSigmaPi :: real
  tpcNSigmaPr :: real
  tofNSigmaPi :: real
  tofNSigmaPr :: real
  itsNClsInnerBarrel :: int

text \<open>The columns of \<^verbatim>\<open>aod::HfCandToXiPi\<close> that the selector reads.\<close>

record candidate =
  posTrackId :: int
  negTrackId :: int
  bachelorId :: int
  bachelorFromCharmBaryonId :: int
  signDecay :: "8 word"
  etaV0PosDau :: real
  etaV0NegDau :: real
  etaBachFromCasc :: real
  etaBachFromCharmBaryon :: real
  xDecayVtxCascade :: real
  yDecayVtxCascade :: real
  xDecayVtxV0 :: real
  yDecayVtxV0 :: real
  cosPACasc :: real
  cosPAV0 :: real
  dcaCascDau :: real
  dcaV0Dau :: real
  dcaCharmBaryonDau :: real
  dcaXYToPvV0Dau0 :: real
  dcaXYToPvV0Dau1 :: real
  dcaXYToPvCascDau :: real
  impactParBachFromCharmBaryonXY :: real
  impactParBachFromCharmBaryonZ :: real
  impactParCascXY :: real
  impactParCascZ :: real
  pxBachFromCasc :: real
  pyBachFromCasc :: real
  pxBachFromCharmBaryon :: real
  pyBachFromCharmBaryon :: real
  invMassLambda :: real
  invMassCascade :: real
  invMassCharmBaryon :: real

text \<open>The configurables that \<^verbatim>\<open>process\<close> reads. The pT and n-sigma ranges of the PID
  section are read by \<^verbatim>\<open>init\<close> only, which hands them to the two PID selectors.\<close>

record cfg =
  radiusCascMin :: real
  radiusV0Min :: real
  cosPAV0Min :: real
  cosPACascMin :: real
  dcaCascDauMax :: real
  dcaV0DauMax :: real
  dcaBachToPvMin :: real
  dcaNegToPvMin :: real
  dcaPosToPvMin :: real
  v0MassWindow :: real
  cascadeMassWindow :: real
  applyTrkSelLf :: bool
  invMassCharmBaryonMin :: real
  invMassCharmBaryonMax :: real
  etaTrackCharmBachMax :: real
  etaTrackLFDauMax :: real
  ptPiFromCascMin :: real
  ptPiFromCharmBaryonMin :: real
  impactParameterXYPiFromCharmBaryonMin :: real
  impactParameterXYPiFromCharmBaryonMax :: real
  impactParameterZPiFromCharmBaryonMin :: real
  impactParameterZPiFromCharmBaryonMax :: real
  impactParameterXYCascMin :: real
  impactParameterXYCascMax :: real
  impactParameterZCascMin :: real
  impactParameterZCascMax :: real
  dcaCharmBaryonDauMax :: real
  usePidTpcOnly :: bool
  usePidTpcTofCombined :: bool
  nClustersTpcMin :: int
  nTpcCrossedRowsMin :: int
  tpcCrossedRowsOverFindableClustersRatioMin :: real
  tpcChi2PerClusterMax :: real
  nClustersItsMin :: int
  nClustersItsInnBarrMin :: int
  itsChi2PerClusterMax :: real

text \<open>A PID selector (\<^verbatim>\<open>TrackSelectorPi\<close>, \<^verbatim>\<open>TrackSelectorPr\<close>) as the two methods the
  selector calls; each returns a status code.\<close>

record 't selectorPID =
  statusTpc :: "'t \<Rightarrow> int"
  statusTpcOrTof :: "'t \<Rightarrow> int"

text \<open>What the selector uses and this file does not define: the helpers of
  \<^verbatim>\<open>RecoDecay\<close> and \<^verbatim>\<open>utilsAnalysis.h\<close>, the two PID selectors as \<^verbatim>\<open>init\<close> has
  configured them, the status code \<^verbatim>\<open>TrackSelectorPID::Accepted\<close> and the two reference
  masses of \<^verbatim>\<open>PhysicsConstants.h\<close>. They are parameters of the embedding.\<close>

record 't externals =
  sqrtSumOfSquares :: "real \<Rightarrow> real \<Rightarrow> real"
  isSelectedTrackTpcQuality :: "'t \<Rightarrow> int \<Rightarrow> int \<Rightarrow> real \<Rightarrow> real \<Rightarrow> bool"
  isSelectedTrackItsQuality :: "'t \<Rightarrow> int \<Rightarrow> real \<Rightarrow> bool"
  selectorPion :: "'t selectorPID"
  selectorProton :: "'t selectorPID"
  Accepted :: int
  MassLambda0 :: real
  MassXiMinus :: real

text \<open>One row of the output table \<^verbatim>\<open>aod::HfSelToXiPi\<close>; the fields are in the order of
  the arguments of the call that appends the row.\<close>

record selRow =
  statusPidLambda :: bool
  statusPidCascade :: bool
  statusPidCharmBaryon :: bool
  statusInvMassLambda :: bool
  statusInvMassCascade :: bool
  statusInvMassCharmBaryon :: bool
  resultSelections :: bool
  infoTpcStored :: int
  infoTofStored :: int
  tpcNSigmaPiFromCharmBaryon :: real
  tpcNSigmaPiFromCasc :: real
  tpcNSigmaPiFromLambda :: real
  tpcNSigmaPrFromLambda :: real
  tofNSigmaPiFromCharmBaryon :: real
  tofNSigmaPiFromCasc :: real
  tofNSigmaPiFromLambda :: real
  tofNSigmaPrFromLambda :: real

type_synonym registry = "(string \<times> real) list"

text \<open>What the task writes: the registry of QA histograms, the output table and the
  invariant-mass histogram.\<close>

record taskState =
  registry :: registry
  hfSelToXiPi :: "selRow list"
  hInvMassCharmBaryon :: "real list"

datatype error = Fatal string taskState

text \<open>The enumeration \<^verbatim>\<open>PidInfoStored\<close>.\<close>

definition PiFromLam :: nat where "PiFromLam = 0"
definition PrFromLam :: nat where "PrFromLam = 1"
definition PiFromCasc :: nat where "PiFromCasc = 2"
definition PiFromCharm :: nat where "PiFromCharm = 3"

subsection \<open>Operations\<close>

text \<open>\<^verbatim>\<open>registry.fill(HIST(h), x)\<close>.\<close>

definition fill :: "registry \<Rightarrow> string \<Rightarrow> real \<Rightarrow> registry" where
  "fill reg h x = reg @ [(h, x)]"

text \<open>\<^verbatim>\<open>if (c) { registry.fill(HIST(h), x); }\<close>\<close>

definition fillIf :: "bool \<Rightarrow> string \<Rightarrow> real \<Rightarrow> registry \<Rightarrow> registry" where
  "fillIf c h x reg = (if c then fill reg h x else reg)"

text \<open>ROOT's \<^verbatim>\<open>SETBIT(n, i)\<close>, which is \<^verbatim>\<open>n |= (1 << i)\<close>.\<close>

definition SETBIT :: "int \<Rightarrow> nat \<Rightarrow> int" where
  "SETBIT n i = n OR push_bit i 1"

text \<open>One selection block of the loop body,
  \<^verbatim>\<open>if (failed) { resultSelections = false; fill(h, 0); } else { fill(h, 1); }\<close>,
  acting on the pair of \<^verbatim>\<open>resultSelections\<close> and the registry.\<close>

definition applyCut :: "bool \<Rightarrow> string \<Rightarrow> bool \<times> registry \<Rightarrow> bool \<times> registry" where
  "applyCut failed h st =
     (if failed then (False, fill (snd st) h 0) else (fst st, fill (snd st) h 1))"

text \<open>Lines 216 to 227: the V0 daughters get their roles from the sign of the decay.
  The result is \<open>((trackPiFromLam, trackPrFromLam), registry)\<close>.\<close>

definition trackRoles :: "'t \<Rightarrow> 't \<Rightarrow> 8 word \<Rightarrow> registry \<Rightarrow> ('t \<times> 't) \<times> registry" where
  "trackRoles trackV0PosDau trackV0NegDau sign reg =
     (let trackPiFromLam = trackV0NegDau;
          trackPrFromLam = trackV0PosDau
      in if 0 < sint sign then
           ((trackV0PosDau, trackV0NegDau), fill reg ''hSelSignDec'' 1)
         else if sint sign < 0 then
           ((trackPiFromLam, trackPrFromLam), fill reg ''hSelSignDec'' 0)
         else ((trackPiFromLam, trackPrFromLam), reg))"

text \<open>Lines 229 to 404: the topological, kinematic and track-quality selections. The
  result is \<^verbatim>\<open>resultSelections\<close> and the registry.\<close>

definition topoSelections ::
  "cfg \<Rightarrow> 'x track_scheme externals \<Rightarrow> candidate \<Rightarrow> 'x track_scheme \<Rightarrow> 'x track_scheme \<Rightarrow>
   'x track_scheme \<Rightarrow> 'x track_scheme \<Rightarrow> registry \<Rightarrow> bool \<times> registry" where
  "topoSelections c ext cand trackPiFromLam trackPrFromLam trackPiFromCasc trackPiFromCharm reg =
    (let st = (True, reg);
         st = applyCut (\<bar>etaV0PosDau cand\<bar> > etaTrackLFDauMax c) ''hSelEtaPosV0Dau'' st;
         st = applyCut (\<bar>etaV0NegDau cand\<bar> > etaTrackLFDauMax c) ''hSelEtaNegV0Dau'' st;
         st = applyCut (\<bar>etaBachFromCasc cand\<bar> > etaTrackLFDauMax c) ''hSelEtaPiFromCasc'' st;
         st = applyCut (\<bar>etaBachFromCharmBaryon cand\<bar> > etaTrackCharmBachMax c)
                ''hSelEtaPiFromCharm'' st;
         st = applyCut (sqrtSumOfSquares ext (xDecayVtxCascade cand) (yDecayVtxCascade cand)
                          < radiusCascMin c) ''hSelRadCasc'' st;
         st = applyCut (sqrtSumOfSquares ext (xDecayVtxV0 cand) (yDecayVtxV0 cand)
                          < radiusV0Min c) ''hSelRadV0'' st;
         st = applyCut (cosPACasc cand < cosPACascMin c) ''hSelCosPACasc'' st;
         st = applyCut (cosPAV0 cand < cosPAV0Min c) ''hSelCosPAV0'' st;
         st = applyCut (dcaCascDau cand > dcaCascDauMax c) ''hSelDCACascDau'' st;
         st = applyCut (dcaV0Dau cand > dcaV0DauMax c) ''hSelDCAV0Dau'' st;
         st = applyCut (dcaCharmBaryonDau cand > dcaCharmBaryonDauMax c) ''hSelDCACharmDau'' st;
         st = applyCut (\<bar>dcaXYToPvV0Dau0 cand\<bar> < dcaPosToPvMin c
                        \<or> \<bar>dcaXYToPvV0Dau1 cand\<bar> < dcaNegToPvMin c)
                ''hSelDcaXYToPvV0Daughters'' st;
         st = applyCut (\<bar>dcaXYToPvCascDau cand\<bar> < dcaBachToPvMin c)
                ''hSelDcaXYToPvPiFromCasc'' st;
         st = applyCut (\<bar>impactParBachFromCharmBaryonXY cand\<bar>
                          < impactParameterXYPiFromCharmBaryonMin c
                        \<or> \<bar>impactParBachFromCharmBaryonXY cand\<bar>
                          > impactParameterXYPiFromCharmBaryonMax c) ''hSelDCAXYPrimPi'' st;
         st = applyCut (\<bar>impactParBachFromCharmBaryonZ cand\<bar>
                          < impactParameterZPiFromCharmBaryonMin c
                        \<or> \<bar>impactParBachFromCharmBaryonZ cand\<bar>
                          > impactParameterZPiFromCharmBaryonMax c) ''hSelDCAZPrimPi'' st;
         st = applyCut (\<bar>impactParCascXY cand\<bar> < impactParameterXYCascMin c
                        \<or> \<bar>impactParCascXY cand\<bar> > impactParameterXYCascMax c)
                ''hSelDCAXYCasc'' st;
         st = applyCut (\<bar>impactParCascZ cand\<bar> < impactParameterZCascMin c
                        \<or> \<bar>impactParCascZ cand\<bar> > impactParameterZCascMax c)
                ''hSelDCAZCasc'' st;
         ptPiFromCasc = sqrtSumOfSquares ext (pxBachFromCasc cand) (pyBachFromCasc cand);
         ptPiFromCharmBaryon =
           sqrtSumOfSquares ext (pxBachFromCharmBaryon cand) (pyBachFromCharmBaryon cand);
         st = applyCut (\<bar>ptPiFromCasc\<bar> < ptPiFromCascMin c) ''hSelPtPiFromCasc'' st;
         st = applyCut (\<bar>ptPiFromCharmBaryon\<bar> < ptPiFromCharmBaryonMin c)
                ''hSelPtPiFromCharm'' st;
         st = (if applyTrkSelLf c then
                 (let st = applyCut (\<not> isSelectedTrackTpcQuality ext trackPiFromLam
                                (nClustersTpcMin c) (nTpcCrossedRowsMin c)
                                (tpcCrossedRowsOverFindableClustersRatioMin c)
                                (tpcChi2PerClusterMax c)) ''hSelTPCQualityPiFromLam'' st;
                      st = applyCut (\<not> isSelectedTrackTpcQuality ext trackPrFromLam
                                (nClustersTpcMin c) (nTpcCrossedRowsMin c)
                                (tpcCrossedRowsOverFindableClustersRatioMin c)
                                (tpcChi2PerClusterMax c)) ''hSelTPCQualityPrFromLam'' st;
                      st = applyCut (\<not> isSelectedTrackTpcQuality ext trackPiFromCasc
                                (nClustersTpcMin c) (nTpcCrossedRowsMin c)
                                (tpcCrossedRowsOverFindableClustersRatioMin c)
                                (tpcChi2PerClusterMax c)) ''hSelTPCQualityPiFromCasc'' st
                  in st)
               else st);
         st = applyCut (\<not> isSelectedTrackTpcQuality ext trackPiFromCharm
                                (nClustersTpcMin c) (nTpcCrossedRowsMin c)
                                (tpcCrossedRowsOverFindableClustersRatioMin c)
                                (tpcChi2PerClusterMax c)) ''hSelTPCQualityPiFromCharm'' st;
         st = applyCut (\<not> isSelectedTrackItsQuality ext trackPiFromCharm
                                (nClustersItsMin c) (itsChi2PerClusterMax c)
                        \<or> itsNClsInnerBarrel trackPiFromCharm < nClustersItsInnBarrMin c)
                ''hSelITSQualityPiFromCharm'' st
     in st)"

text \<open>Lines 425 to 448: which of the four tracks have TPC and TOF information.\<close>

definition storedInfoTpc :: "'x track_scheme \<Rightarrow> 'x track_scheme \<Rightarrow> 'x track_scheme \<Rightarrow>
    'x track_scheme \<Rightarrow> int" where
  "storedInfoTpc trackPiFromLam trackPrFromLam trackPiFromCasc trackPiFromCharm =
    (let info = 0;
         info = (if hasTPC trackPiFromLam then SETBIT info PiFromLam else info);
         info = (if hasTPC trackPrFromLam then SETBIT info PrFromLam else info);
         info = (if hasTPC trackPiFromCasc then SETBIT info PiFromCasc else info);
         info = (if hasTPC trackPiFromCharm then SETBIT info PiFromCharm else info)
     in info)"

definition storedInfoTof :: "'x track_scheme \<Rightarrow> 'x track_scheme \<Rightarrow> 'x track_scheme \<Rightarrow>
    'x track_scheme \<Rightarrow> int" where
  "storedInfoTof trackPiFromLam trackPrFromLam trackPiFromCasc trackPiFromCharm =
    (let info = 0;
         info = (if hasTOF trackPiFromLam then SETBIT info PiFromLam else info);
         info = (if hasTOF trackPrFromLam then SETBIT info PrFromLam else info);
         info = (if hasTOF trackPiFromCasc then SETBIT info PiFromCasc else info);
         info = (if hasTOF trackPiFromCharm then SETBIT info PiFromCharm else info)
     in info)"

text \<open>Lines 409 to 412 and 450 to 460: the PID status of the four tracks, in the order
  \<open>(statusPidPrFromLam, statusPidPiFromLam, statusPidPiFromCasc,
  statusPidPiFromCharmBaryon)\<close>; each starts at -999.\<close>

definition pidStatus :: "cfg \<Rightarrow> 't externals \<Rightarrow> 't \<Rightarrow> 't \<Rightarrow> 't \<Rightarrow> 't \<Rightarrow> int \<times> int \<times> int \<times> int" where
  "pidStatus c ext trackPiFromLam trackPrFromLam trackPiFromCasc trackPiFromCharm =
    (if usePidTpcOnly c then
       (statusTpc (selectorProton ext) trackPrFromLam,
        statusTpc (selectorPion ext) trackPiFromLam,
        statusTpc (selectorPion ext) trackPiFromCasc,
        statusTpc (selectorPion ext) trackPiFromCharm)
     else if usePidTpcTofCombined c then
       (statusTpcOrTof (selectorProton ext) trackPrFromLam,
        statusTpcOrTof (selectorPion ext) trackPiFromLam,
        statusTpcOrTof (selectorPion ext) trackPiFromCasc,
        statusTpcOrTof (selectorPion ext) trackPiFromCharm)
     else (- 999, - 999, - 999, - 999))"

text \<open>Lines 526 to 563: the twelve conditional fills of \<^verbatim>\<open>hSelPID\<close>.\<close>

definition fillSelPID :: "bool \<Rightarrow> bool \<Rightarrow> bool \<Rightarrow> bool \<Rightarrow> bool \<Rightarrow> bool \<Rightarrow> registry \<Rightarrow> registry" where
  "fillSelPID pidLambda pidCascade pidCharmBaryon massLambda massCascade massCharmBaryon reg =
    (let reg = fillIf (\<not> pidLambda) ''hSelPID'' 0.5 reg;
         reg = fillIf pidLambda ''hSelPID'' 1.5 reg;
         reg = fillIf (\<not> pidCascade) ''hSelPID'' 2.5 reg;
         reg = fillIf pidCascade ''hSelPID'' 3.5 reg;
         reg = fillIf (\<not> pidCharmBaryon) ''hSelPID'' 4.5 reg;
         reg = fillIf pidCharmBaryon ''hSelPID'' 5.5 reg;
         reg = fillIf (\<not> massLambda) ''hSelPID'' 6.5 reg;
         reg = fillIf massLambda ''hSelPID'' 7.5 reg;
         reg = fillIf (\<not> massCascade) ''hSelPID'' 8.5 reg;
         reg = fillIf massCascade ''hSelPID'' 9.5 reg;
         reg = fillIf (\<not> massCharmBaryon) ''hSelPID'' 10.5 reg;
         reg = fillIf massCharmBaryon ''hSelPID'' 11.5 reg
     in reg)"

text \<open>Lines 414 to 416 and 462 to 481: the three PID flags, each \<^verbatim>\<open>false\<close> unless its
  condition holds, and the fills of \<^verbatim>\<open>hStatusCheck\<close> that go with them.\<close>

definition pidSelections ::
  "int \<Rightarrow> int \<times> int \<times> int \<times> int \<Rightarrow> bool \<Rightarrow> registry \<Rightarrow> (bool \<times> bool \<times> bool) \<times> registry" where
  "pidSelections accepted status resultSel reg =
    (let (statusPidPrFromLam, statusPidPiFromLam, statusPidPiFromCasc,
            statusPidPiFromCharmBaryon) = status;
         (pidLambda, reg) =
           (if statusPidPrFromLam = accepted \<and> statusPidPiFromLam = accepted
            then (True, fillIf resultSel ''hStatusCheck'' 0.5 reg) else (False, reg));
         (pidCascade, reg) =
           (if statusPidPrFromLam = accepted \<and> statusPidPiFromLam = accepted
               \<and> statusPidPiFromCasc = accepted
            then (True, fillIf resultSel ''hStatusCheck'' 1.5 reg) else (False, reg));
         (pidCharmBaryon, reg) =
           (if statusPidPrFromLam = accepted \<and> statusPidPiFromLam = accepted
               \<and> statusPidPiFromCasc = accepted \<and> statusPidPiFromCharmBaryon = accepted
            then (True, fillIf resultSel ''hStatusCheck'' 2.5 reg) else (False, reg))
     in ((pidLambda, pidCascade, pidCharmBaryon), reg))"

text \<open>Lines 199, 200 and 483 to 520: the three invariant-mass flags and their fills.\<close>

definition massSelections ::
  "cfg \<Rightarrow> 't externals \<Rightarrow> candidate \<Rightarrow> bool \<times> bool \<times> bool \<Rightarrow> bool \<Rightarrow> registry \<Rightarrow>
   (bool \<times> bool \<times> bool) \<times> registry" where
  "massSelections c ext cand pid resultSel reg =
    (let (pidLambda, pidCascade, pidCharmBaryon) = pid;
         massLambdaFromPDG = MassLambda0 ext;
         massXiFromPDG = MassXiMinus ext;
         (massLambda, reg) =
           (if \<bar>invMassLambda cand - massLambdaFromPDG\<bar> < v0MassWindow c
            then (True, fillIf (pidLambda \<and> pidCascade \<and> pidCharmBaryon \<and> resultSel)
                          ''hStatusCheck'' 3.5 (fill reg ''hSelMassLam'' 1))
            else (False, fill reg ''hSelMassLam'' 0));
         (massCascade, reg) =
           (if \<bar>invMassCascade cand - massXiFromPDG\<bar> < cascadeMassWindow c
            then (True, fillIf (pidLambda \<and> pidCascade \<and> pidCharmBaryon \<and> massLambda
                                \<and> resultSel)
                          ''hStatusCheck'' 4.5 (fill reg ''hSelMassCasc'' 1))
            else (False, fill reg ''hSelMassCasc'' 0));
         (massCharmBaryon, reg) =
           (if invMassCharmBaryon cand \<ge> invMassCharmBaryonMin c
               \<and> invMassCharmBaryon cand \<le> invMassCharmBaryonMax c
            then (True, fillIf (pidLambda \<and> pidCascade \<and> pidCharmBaryon \<and> massLambda
                                \<and> massCascade \<and> resultSel)
                          ''hStatusCheck'' 5.5 (fill reg ''hSelMassCharmBaryon'' 1))
            else (False, fill reg ''hSelMassCharmBaryon'' 0))
     in ((massLambda, massCascade, massCharmBaryon), reg))"

text \<open>Lines 229 to 567: the loop body once the four tracks have their roles. The check
  of the PID configurables stands where the source has it, between the track-quality
  selections and the PID.\<close>

definition selectCandidate ::
  "cfg \<Rightarrow> 'x track_scheme externals \<Rightarrow> candidate \<Rightarrow> 'x track_scheme \<Rightarrow> 'x track_scheme \<Rightarrow>
   'x track_scheme \<Rightarrow> 'x track_scheme \<Rightarrow> taskState \<Rightarrow> error + taskState" where
  "selectCandidate c ext cand trackPiFromLam trackPrFromLam trackPiFromCasc trackPiFromCharm s =
    (let (resultSel, reg) = topoSelections c ext cand trackPiFromLam trackPrFromLam
                              trackPiFromCasc trackPiFromCharm (registry s)
     in
     if usePidTpcOnly c = usePidTpcTofCombined c then
       Inl (Fatal ''Check the PID configurables, usePidTpcOnly and usePidTpcTofCombined can't have the same value''
              (s\<lparr>registry := reg\<rparr>))
     else
    (let infoTpc = storedInfoTpc trackPiFromLam trackPrFromLam trackPiFromCasc trackPiFromCharm;
         infoTof = storedInfoTof trackPiFromLam trackPrFromLam trackPiFromCasc trackPiFromCharm;
         status = pidStatus c ext trackPiFromLam trackPrFromLam trackPiFromCasc trackPiFromCharm;
         ((pidLambda, pidCascade, pidCharmBaryon), reg) =
           pidSelections (Accepted ext) status resultSel reg;
         ((massLambda, massCascade, massCharmBaryon), reg) =
           massSelections c ext cand (pidLambda, pidCascade, pidCharmBaryon) resultSel reg;
         row = \<lparr>statusPidLambda = pidLambda, statusPidCascade = pidCascade,
                statusPidCharmBaryon = pidCharmBaryon, statusInvMassLambda = massLambda,
                statusInvMassCascade = massCascade, statusInvMassCharmBaryon = massCharmBaryon,
                resultSelections = resultSel, infoTpcStored = infoTpc, infoTofStored = infoTof,
                tpcNSigmaPiFromCharmBaryon = tpcNSigmaPi trackPiFromCharm,
                tpcNSigmaPiFromCasc = tpcNSigmaPi trackPiFromCasc,
                tpcNSigmaPiFromLambda = tpcNSigmaPi trackPiFromLam,
                tpcNSigmaPrFromLambda = tpcNSigmaPr trackPrFromLam,
                tofNSigmaPiFromCharmBaryon = tofNSigmaPi trackPiFromCharm,
                tofNSigmaPiFromCasc = tofNSigmaPi trackPiFromCasc,
                tofNSigmaPiFromLambda = tofNSigmaPi trackPiFromLam,
                tofNSigmaPrFromLambda = tofNSigmaPr trackPrFromLam\<rparr>;
         reg = (if resultSel
                then fillSelPID pidLambda pidCascade pidCharmBaryon massLambda massCascade
                       massCharmBaryon reg
                else reg);
         hInv = (if pidLambda \<and> pidCascade \<and> pidCharmBaryon \<and> massLambda \<and> massCascade
                    \<and> massCharmBaryon \<and> resultSel
                 then hInvMassCharmBaryon s @ [invMassCharmBaryon cand]
                 else hInvMassCharmBaryon s)
     in Inr \<lparr>registry = reg, hfSelToXiPi = hfSelToXiPi s @ [row],
             hInvMassCharmBaryon = hInv\<rparr>))"

text \<open>Lines 203 to 568: the body of the loop for one candidate: the four tracks are
  looked up, the V0 daughters get their roles, and the selections follow.\<close>

definition processCandidate ::
  "cfg \<Rightarrow> 'x track_scheme externals \<Rightarrow> (int \<Rightarrow> 'x track_scheme) \<Rightarrow> (int \<Rightarrow> 'x track_scheme) \<Rightarrow>
   candidate \<Rightarrow> taskState \<Rightarrow> error + taskState" where
  "processCandidate c ext tracks lfTracks cand s =
    (let trackV0PosDau = lfTracks (posTrackId cand);
         trackV0NegDau = lfTracks (negTrackId cand);
         trackPiFromCasc = lfTracks (bachelorId cand);
         trackPiFromCharm = tracks (bachelorFromCharmBaryonId cand);
         ((trackPiFromLam, trackPrFromLam), reg) =
           trackRoles trackV0PosDau trackV0NegDau (signDecay cand) (registry s)
     in selectCandidate c ext cand trackPiFromLam trackPrFromLam trackPiFromCasc
          trackPiFromCharm (s\<lparr>registry := reg\<rparr>))"

text \<open>\<^verbatim>\<open>HfCandidateSelectorToXiPi::process\<close>: the loop over the candidates. A fatal error
  ends it.\<close>

fun selectorProcess ::
  "cfg \<Rightarrow> 'x track_scheme externals \<Rightarrow> (int \<Rightarrow> 'x track_scheme) \<Rightarrow> (int \<Rightarrow> 'x track_scheme) \<Rightarrow>
   candidate list \<Rightarrow> taskState \<Rightarrow> error + taskState" where
  "selectorProcess c ext tracks lfTracks [] s = Inr s"
| "selectorProcess c ext tracks lfTracks (cand # candidates) s =
    (case processCandidate c ext tracks lfTracks cand s of
       Inl e \<Rightarrow> Inl e
     | Inr s' \<Rightarrow> selectorProcess c ext tracks lfTracks candidates s')"

text \<open>The number of fills of histogram \<open>h\<close> with value \<open>x\<close>.\<close>

definition tally :: "registry \<Rightarrow> string \<Rightarrow> real \<Rightarrow> nat" where
  "tally reg h x = length (filter (\<lambda>e. e = (h, x)) reg)"

section \<open>The secondary-vertex finder\<close>

text \<open>
  Embedding of \<^verbatim>\<open>VertexerHFTask::process\<close> (Tasks/vertexerhf.cxx). An iterator over the
  track table is its position; \<^verbatim>\<open>index()\<close> of the row at position \<open>k\<close> is the integer
  \<open>first + k\<close>, where \<open>first\<close> is the global index of the first row handed to the task.
  The three index columns of the output are 32-bit \<^verbatim>\<open>int\<close>: they are 32-bit words, read
  with \<open>sint\<close>, and storing an index keeps its low 32 bits. \<^verbatim>\<open>LOGF(info, ...)\<close> writes a
  log line and nothing else, and is left out.
\<close>

text \<open>The columns of \<^verbatim>\<open>soa::Join<aod::Tracks, aod::TracksCov>\<close> that the task reads; the
  position columns \<^verbatim>\<open>x\<close>, \<^verbatim>\<open>y\<close>, \<^verbatim>\<open>z\<close> carry the prefix \<open>track\<close>.\<close>

record trackRow =
  trackX :: real
  alpha :: real
  trackY :: real
  trackZ :: real
  snp :: real
  tgl :: real
  signed1Pt :: real
  cYY :: real
  cZY :: real
  cZZ :: real
  cSnpY :: real
  cSnpZ :: real
  cSnpSnp :: real
  cTglY :: real
  cTglZ :: real
  cTglSnp :: real
  cTglTgl :: real
  c1PtY :: real
  c1PtZ :: real
  c1PtSnp :: real
  c1PtTgl :: real
  c1Pt21Pt2 :: real

text \<open>\<^verbatim>\<open>o2::track::TrackParCov\<close> as its four constructor arguments.\<close>

record TrackParCov =
  parX :: real
  parAlpha :: real
  arraypar :: "real list"
  covpar :: "real list"

text \<open>\<^verbatim>\<open>DCAFitter::Triplet\<close>.\<close>

record Triplet =
  vtxX :: real
  vtxY :: real
  vtxZ :: real

text \<open>The fitter is not part of this file. It is a parameter: for a pair of track
  parametrisations, \<^verbatim>\<open>process\<close> gives the number of candidates and
  \<^verbatim>\<open>getPCACandidate\<close> the vertex of each.\<close>

record DCAFitter =
  fitterProcess :: "TrackParCov \<Rightarrow> TrackParCov \<Rightarrow> int"
  getPCACandidate :: "TrackParCov \<Rightarrow> TrackParCov \<Rightarrow> int \<Rightarrow> Triplet"

text \<open>One row of the table \<^verbatim>\<open>aod::SecVtx\<close>.\<close>

record secVtxRow =
  posx :: real
  posy :: real
  index0 :: "32 word"
  index1 :: "32 word"
  index2 :: "32 word"
  tracky0 :: real
  tracky1 :: real
  tracky2 :: real

record vertexerState =
  hvtx_x_out :: "real list"
  hvtx_y_out :: "real list"
  hvtx_z_out :: "real list"
  hindex_0_coll :: "real list"
  secvtx :: "secVtxRow list"

definition trackParCov :: "trackRow \<Rightarrow> TrackParCov" where
  "trackParCov t =
    \<lparr>parX = trackX t, parAlpha = alpha t,
     arraypar = [trackY t, trackZ t, snp t, tgl t, signed1Pt t],
     covpar = [cYY t, cZY t, cZZ t, cSnpY t, cSnpZ t, cSnpSnp t, cTglY t, cTglZ t, cTglSnp t,
               cTglTgl t, c1PtY t, c1PtZ t, c1PtSnp t, c1PtTgl t, c1Pt21Pt2 t]\<rparr>"

text \<open>Lines 104 to 111: one candidate vertex of a pair of tracks. The arguments
  \<^verbatim>\<open>-1.\<close> of the two last-track columns are the 32-bit integer and the number -1.\<close>

definition emitVertex ::
  "DCAFitter \<Rightarrow> int \<Rightarrow> trackRow list \<Rightarrow> nat \<Rightarrow> nat \<Rightarrow> nat \<Rightarrow> vertexerState \<Rightarrow> vertexerState" where
  "emitVertex df first tracks it_0 it_1 ic s =
    (let track_0 = tracks ! it_0;
         track_1 = tracks ! it_1;
         vtx = getPCACandidate df (trackParCov track_0) (trackParCov track_1) (int ic)
     in s\<lparr>hvtx_x_out := hvtx_x_out s @ [vtxX vtx],
           hvtx_y_out := hvtx_y_out s @ [vtxY vtx],
           hvtx_z_out := hvtx_z_out s @ [vtxZ vtx],
           secvtx := secvtx s @
             [\<lparr>posx = vtxX vtx, posy = vtxY vtx,
               index0 = word_of_int (first + int it_0), index1 = word_of_int (first + int it_1),
               index2 = - 1,
               tracky0 = trackY track_0, tracky1 = trackY track_1, tracky2 = - 1\<rparr>]\<rparr>)"

text \<open>Lines 93 to 111: the body of the inner loop, for the pair at positions
  \<open>it_0\<close> and \<open>it_1\<close>.\<close>

definition fitPair ::
  "DCAFitter \<Rightarrow> int \<Rightarrow> trackRow list \<Rightarrow> nat \<Rightarrow> nat \<Rightarrow> vertexerState \<Rightarrow> vertexerState" where
  "fitPair df first tracks it_0 it_1 s =
    (let nCand = fitterProcess df (trackParCov (tracks ! it_0)) (trackParCov (tracks ! it_1))
     in fold (emitVertex df first tracks it_0 it_1) [0..<nat nCand] s)"

text \<open>Lines 81 to 113: the two loops. The outer iterator runs over all positions, the
  inner one from the position after it to the end.\<close>

definition vertexerProcess ::
  "DCAFitter \<Rightarrow> int \<Rightarrow> trackRow list \<Rightarrow> vertexerState \<Rightarrow> vertexerState" where
  "vertexerProcess df first tracks s =
    fold (\<lambda>it_0 s.
            fold (fitPair df first tracks it_0) [Suc it_0..<length tracks]
              (s\<lparr>hindex_0_coll := hindex_0_coll s @ [real_of_int (first + int it_0)]\<rparr>))
         [0..<length tracks] s"

section \<open>Concrete inputs\<close>

text \<open>The default values of the configurables.\<close>

definition cfgDefault :: cfg where
  "cfgDefault =
    \<lparr>radiusCascMin = 0.6, radiusV0Min = 1.2, cosPAV0Min = 0.97, cosPACascMin = 0.97,
     dcaCascDauMax = 1.0, dcaV0DauMax = 1.0, dcaBachToPvMin = 0.04, dcaNegToPvMin = 0.06,
     dcaPosToPvMin = 0.06, v0MassWindow = 0.01, cascadeMassWindow = 0.01,
     applyTrkSelLf = True, invMassCharmBaryonMin = 2.0, invMassCharmBaryonMax = 3.1,
     etaTrackCharmBachMax = 0.8, etaTrackLFDauMax = 1.0, ptPiFromCascMin = 0.15,
     ptPiFromCharmBaryonMin = 0.2,
     impactParameterXYPiFromCharmBaryonMin = 0, impactParameterXYPiFromCharmBaryonMax = 10,
     impactParameterZPiFromCharmBaryonMin = 0, impactParameterZPiFromCharmBaryonMax = 10,
     impactParameterXYCascMin = 0, impactParameterXYCascMax = 10,
     impactParameterZCascMin = 0, impactParameterZCascMax = 10,
     dcaCharmBaryonDauMax = 2.0, usePidTpcOnly = False, usePidTpcTofCombined = True,
     nClustersTpcMin = 70, nTpcCrossedRowsMin = 70,
     tpcCrossedRowsOverFindableClustersRatioMin = 0.8, tpcChi2PerClusterMax = 4,
     nClustersItsMin = 3, nClustersItsInnBarrMin = 1, itsChi2PerClusterMax = 36\<rparr>"

text \<open>A track row with the quality columns that the helpers of the example read.\<close>

record trackQA = track +
  tpcNClsFound :: int
  tpcNClsCrossedRows :: int
  tpcCrossedRowsOverFindableCls :: real
  tpcChi2NCl :: real
  itsNCls :: int
  itsChi2NCl :: real

text \<open>One instance of the external parameters, to run the embedding on concrete inputs:
  the transverse length, threshold checks on the quality columns, PID selectors that
  accept within three sigma (status 3) and reject otherwise (status 1), and the reference
  masses in GeV.\<close>

definition exampleExternals :: "trackQA externals" where
  "exampleExternals =
    \<lparr>sqrtSumOfSquares = (\<lambda>a b. sqrt (a * a + b * b)),
     isSelectedTrackTpcQuality = (\<lambda>t nCls nRows ratio chi2.
        nCls \<le> tpcNClsFound t \<and> nRows \<le> tpcNClsCrossedRows t
        \<and> ratio \<le> tpcCrossedRowsOverFindableCls t \<and> tpcChi2NCl t \<le> chi2),
     isSelectedTrackItsQuality = (\<lambda>t nCls chi2. nCls \<le> itsNCls t \<and> itsChi2NCl t \<le> chi2),
     selectorPion =
       \<lparr>statusTpc = (\<lambda>t. if hasTPC t \<and> \<bar>tpcNSigmaPi t\<bar> \<le> 3 then 3 else 1),
        statusTpcOrTof = (\<lambda>t. if (hasTPC t \<and> \<bar>tpcNSigmaPi t\<bar> \<le> 3)
                                  \<or> (hasTOF t \<and> \<bar>tofNSigmaPi t\<bar> \<le> 3) then 3 else 1)\<rparr>,
     selectorProton =
       \<lparr>statusTpc = (\<lambda>t. if hasTPC t \<and> \<bar>tpcNSigmaPr t\<bar> \<le> 3 then 3 else 1),
        statusTpcOrTof = (\<lambda>t. if (hasTPC t \<and> \<bar>tpcNSigmaPr t\<bar> \<le> 3)
                                  \<or> (hasTOF t \<and> \<bar>tofNSigmaPr t\<bar> \<le> 3) then 3 else 1)\<rparr>,
     Accepted = 3, MassLambda0 = 1.115683, MassXiMinus = 1.32171\<rparr>"

text \<open>Four tracks: a pion-like and a proton-like V0 daughter, and two pion-like
  bachelors; the second bachelor has no TOF information.\<close>

definition pionTrack :: trackQA where
  "pionTrack =
    \<lparr>hasTPC = True, hasTOF = True, tpcNSigmaPi = 0.5, tpcNSigmaPr = 6, tofNSigmaPi = 1,
     tofNSigmaPr = 7, itsNClsInnerBarrel = 3, tpcNClsFound = 120, tpcNClsCrossedRows = 130,
     tpcCrossedRowsOverFindableCls = 0.9, tpcChi2NCl = 1.5, itsNCls = 7, itsChi2NCl = 2\<rparr>"

definition protonTrack :: trackQA where
  "protonTrack =
    \<lparr>hasTPC = True, hasTOF = True, tpcNSigmaPi = 8, tpcNSigmaPr = 0.25, tofNSigmaPi = 9,
     tofNSigmaPr = 2, itsNClsInnerBarrel = 0, tpcNClsFound = 110, tpcNClsCrossedRows = 115,
     tpcCrossedRowsOverFindableCls = 0.95, tpcChi2NCl = 2, itsNCls = 4, itsChi2NCl = 3\<rparr>"

definition bachelorTrack :: trackQA where
  "bachelorTrack = pionTrack\<lparr>tpcNSigmaPi := - 1.5, tofNSigmaPi := 0.75\<rparr>"

definition charmBachelorTrack :: trackQA where
  "charmBachelorTrack = pionTrack\<lparr>hasTOF := False, tpcNSigmaPi := 2, tofNSigmaPi := - 999\<rparr>"

definition exampleLfTracks :: "int \<Rightarrow> trackQA" where
  "exampleLfTracks i = (if i = 0 then pionTrack else if i = 1 then protonTrack else bachelorTrack)"

definition exampleTracks :: "int \<Rightarrow> trackQA" where
  "exampleTracks i = charmBachelorTrack"

text \<open>A candidate of positive decay sign that passes every selection with the default
  configurables, and the same candidate with a cascade radius of 0.5.\<close>

definition exampleCandidate :: candidate where
  "exampleCandidate =
    \<lparr>posTrackId = 0, negTrackId = 1, bachelorId = 2, bachelorFromCharmBaryonId = 3,
     signDecay = 1, etaV0PosDau = 0.25, etaV0NegDau = - 0.5, etaBachFromCasc = 0.125,
     etaBachFromCharmBaryon = - 0.75, xDecayVtxCascade = 3, yDecayVtxCascade = 4,
     xDecayVtxV0 = 6, yDecayVtxV0 = 8, cosPACasc = 0.99, cosPAV0 = 0.98, dcaCascDau = 0.5,
     dcaV0Dau = 0.25, dcaCharmBaryonDau = 1, dcaXYToPvV0Dau0 = 0.5, dcaXYToPvV0Dau1 = - 0.25,
     dcaXYToPvCascDau = 0.125, impactParBachFromCharmBaryonXY = 0.5,
     impactParBachFromCharmBaryonZ = - 0.5, impactParCascXY = 0.25, impactParCascZ = 0.75,
     pxBachFromCasc = 3, pyBachFromCasc = 4, pxBachFromCharmBaryon = 6,
     pyBachFromCharmBaryon = 8, invMassLambda = 1.116, invMassCascade = 1.322,
     invMassCharmBaryon = 2.47\<rparr>"

definition lowRadiusCandidate :: candidate where
  "lowRadiusCandidate = exampleCandidate\<lparr>xDecayVtxCascade := 0.5, yDecayVtxCascade := 0\<rparr>"

definition emptyState :: taskState where
  "emptyState = \<lparr>registry = [], hfSelToXiPi = [], hInvMassCharmBaryon = []\<rparr>"

text \<open>The rows that the inner loop body appends for the pair of tracks at positions \<open>i\<close>
  and \<open>j\<close> (lines 103 to 111), written as a function of the inputs. It serves the proofs:
  \<open>secvtx_fitPair\<close> below shows that these are the rows \<open>fitPair\<close> appends.\<close>

definition vertexRows :: "DCAFitter \<Rightarrow> int \<Rightarrow> trackRow list \<Rightarrow> nat \<Rightarrow> nat \<Rightarrow> secVtxRow list" where
  "vertexRows df first tracks i j =
     map (\<lambda>ic.
       \<lparr>posx = vtxX (getPCACandidate df (trackParCov (tracks ! i)) (trackParCov (tracks ! j))
                      (int ic)),
        posy = vtxY (getPCACandidate df (trackParCov (tracks ! i)) (trackParCov (tracks ! j))
                      (int ic)),
        index0 = word_of_int (first + int i), index1 = word_of_int (first + int j),
        index2 = - 1,
        tracky0 = trackY (tracks ! i), tracky1 = trackY (tracks ! j), tracky2 = - 1\<rparr>)
       [0..<nat (fitterProcess df (trackParCov (tracks ! i)) (trackParCov (tracks ! j)))]"

text \<open>A fitter that reports two candidates when the \<open>x\<close> of the two tracks have the same
  sign and a negative count otherwise, three tracks, and a state with nothing written.\<close>

definition exampleFitter :: DCAFitter where
  "exampleFitter =
    \<lparr>fitterProcess = (\<lambda>a b. if 0 \<le> parX a * parX b then 2 else - 1),
     getPCACandidate = (\<lambda>a b ic.
        \<lparr>vtxX = (parX a + parX b) / 2, vtxY = (hd (arraypar a) + hd (arraypar b)) / 2,
         vtxZ = real_of_int ic\<rparr>)\<rparr>"

definition exampleRow :: "real \<Rightarrow> real \<Rightarrow> trackRow" where
  "exampleRow a b =
    \<lparr>trackX = a, alpha = 0, trackY = b, trackZ = 0, snp = 0, tgl = 0, signed1Pt = 1,
     cYY = 1, cZY = 0, cZZ = 1, cSnpY = 0, cSnpZ = 0, cSnpSnp = 1, cTglY = 0, cTglZ = 0,
     cTglSnp = 0, cTglTgl = 1, c1PtY = 0, c1PtZ = 0, c1PtSnp = 0, c1PtTgl = 0,
     c1Pt21Pt2 = 1\<rparr>"

definition exampleRows :: "trackRow list" where
  "exampleRows = [exampleRow 1 0.5, exampleRow (- 1) 0.25, exampleRow 2 0.75]"

definition emptyVertexerState :: vertexerState where
  "emptyVertexerState =
    \<lparr>hvtx_x_out = [], hvtx_y_out = [], hvtx_z_out = [], hindex_0_coll = [], secvtx = []\<rparr>"

text \<open>The row that the loop body appends for a candidate (lines 522 to 524), written as
  a function of the inputs. It serves the proofs: \<open>processCandidate_row\<close> below shows
  that it is the row \<open>processCandidate\<close> appends.\<close>

definition emittedRow ::
  "cfg \<Rightarrow> 'x track_scheme externals \<Rightarrow> (int \<Rightarrow> 'x track_scheme) \<Rightarrow> (int \<Rightarrow> 'x track_scheme) \<Rightarrow>
   candidate \<Rightarrow> selRow" where
  "emittedRow c ext tracks lfTracks cand =
    (let trackPiFromLam = (if 0 < sint (signDecay cand) then lfTracks (posTrackId cand)
                           else lfTracks (negTrackId cand));
         trackPrFromLam = (if 0 < sint (signDecay cand) then lfTracks (negTrackId cand)
                           else lfTracks (posTrackId cand));
         trackPiFromCasc = lfTracks (bachelorId cand);
         trackPiFromCharm = tracks (bachelorFromCharmBaryonId cand);
         (sPr, sPi, sCasc, sCharm) =
           pidStatus c ext trackPiFromLam trackPrFromLam trackPiFromCasc trackPiFromCharm
     in \<lparr>statusPidLambda = (sPr = Accepted ext \<and> sPi = Accepted ext),
         statusPidCascade = (sPr = Accepted ext \<and> sPi = Accepted ext \<and> sCasc = Accepted ext),
         statusPidCharmBaryon = (sPr = Accepted ext \<and> sPi = Accepted ext
            \<and> sCasc = Accepted ext \<and> sCharm = Accepted ext),
         statusInvMassLambda = (\<bar>invMassLambda cand - MassLambda0 ext\<bar> < v0MassWindow c),
         statusInvMassCascade = (\<bar>invMassCascade cand - MassXiMinus ext\<bar> < cascadeMassWindow c),
         statusInvMassCharmBaryon = (invMassCharmBaryonMin c \<le> invMassCharmBaryon cand
            \<and> invMassCharmBaryon cand \<le> invMassCharmBaryonMax c),
         resultSelections = fst (topoSelections c ext cand trackPiFromLam trackPrFromLam
            trackPiFromCasc trackPiFromCharm []),
         infoTpcStored = storedInfoTpc trackPiFromLam trackPrFromLam trackPiFromCasc
            trackPiFromCharm,
         infoTofStored = storedInfoTof trackPiFromLam trackPrFromLam trackPiFromCasc
            trackPiFromCharm,
         tpcNSigmaPiFromCharmBaryon = tpcNSigmaPi trackPiFromCharm,
         tpcNSigmaPiFromCasc = tpcNSigmaPi trackPiFromCasc,
         tpcNSigmaPiFromLambda = tpcNSigmaPi trackPiFromLam,
         tpcNSigmaPrFromLambda = tpcNSigmaPr trackPrFromLam,
         tofNSigmaPiFromCharmBaryon = tofNSigmaPi trackPiFromCharm,
         tofNSigmaPiFromCasc = tofNSigmaPi trackPiFromCasc,
         tofNSigmaPiFromLambda = tofNSigmaPi trackPiFromLam,
         tofNSigmaPrFromLambda = tofNSigmaPr trackPrFromLam\<rparr>)"

section \<open>Properties of the candidate selector\<close>

subsection \<open>The selection blocks and the tallies\<close>

lemma fst_applyCut: "fst (applyCut failed h st) = (fst st \<and> \<not> failed)"
  by (simp add: applyCut_def)

lemma snd_applyCut: "snd (applyCut failed h st) = fill (snd st) h (if failed then 0 else 1)"
  by (simp add: applyCut_def)

lemma tally_fill:
  "tally (fill reg h' x') h x = (if h' = h \<and> x' = x then Suc (tally reg h x) else tally reg h x)"
  by (auto simp: tally_def fill_def)

lemma tally_fillIf:
  "tally (fillIf b h' x' reg) h x =
     (if b \<and> h' = h \<and> x' = x then Suc (tally reg h x) else tally reg h x)"
  by (simp add: fillIf_def tally_fill)

lemma tally_fillSelPID:
  "h \<noteq> ''hSelPID'' \<Longrightarrow> tally (fillSelPID a b d e f g reg) h x = tally reg h x"
  by (simp add: fillSelPID_def Let_def tally_fillIf)

lemma tally_applyCut_other:
  "h' \<noteq> h \<Longrightarrow> tally (snd (applyCut failed h' st)) h x = tally (snd st) h x"
  by (auto simp: snd_applyCut tally_fill)

lemma tally_applyCut_same:
  "tally (snd (applyCut failed h st)) h x =
     (if x = (if failed then 0 else 1) then Suc (tally (snd st) h x) else tally (snd st) h x)"
  by (auto simp: snd_applyCut tally_fill)

lemma length_applyCut: "length (snd (applyCut failed h st)) = Suc (length (snd st))"
  by (simp add: snd_applyCut fill_def)

subsection \<open>The topological selections\<close>

lemma fst_topoSelections:
  "fst (topoSelections c ext cand trackPiFromLam trackPrFromLam trackPiFromCasc trackPiFromCharm reg) =
    (\<bar>etaV0PosDau cand\<bar> \<le> etaTrackLFDauMax c
     \<and> \<bar>etaV0NegDau cand\<bar> \<le> etaTrackLFDauMax c
     \<and> \<bar>etaBachFromCasc cand\<bar> \<le> etaTrackLFDauMax c
     \<and> \<bar>etaBachFromCharmBaryon cand\<bar> \<le> etaTrackCharmBachMax c
     \<and> radiusCascMin c \<le> sqrtSumOfSquares ext (xDecayVtxCascade cand) (yDecayVtxCascade cand)
     \<and> radiusV0Min c \<le> sqrtSumOfSquares ext (xDecayVtxV0 cand) (yDecayVtxV0 cand)
     \<and> cosPACascMin c \<le> cosPACasc cand
     \<and> cosPAV0Min c \<le> cosPAV0 cand
     \<and> dcaCascDau cand \<le> dcaCascDauMax c
     \<and> dcaV0Dau cand \<le> dcaV0DauMax c
     \<and> dcaCharmBaryonDau cand \<le> dcaCharmBaryonDauMax c
     \<and> dcaPosToPvMin c \<le> \<bar>dcaXYToPvV0Dau0 cand\<bar>
     \<and> dcaNegToPvMin c \<le> \<bar>dcaXYToPvV0Dau1 cand\<bar>
     \<and> dcaBachToPvMin c \<le> \<bar>dcaXYToPvCascDau cand\<bar>
     \<and> impactParameterXYPiFromCharmBaryonMin c \<le> \<bar>impactParBachFromCharmBaryonXY cand\<bar>
     \<and> \<bar>impactParBachFromCharmBaryonXY cand\<bar> \<le> impactParameterXYPiFromCharmBaryonMax c
     \<and> impactParameterZPiFromCharmBaryonMin c \<le> \<bar>impactParBachFromCharmBaryonZ cand\<bar>
     \<and> \<bar>impactParBachFromCharmBaryonZ cand\<bar> \<le> impactParameterZPiFromCharmBaryonMax c
     \<and> impactParameterXYCascMin c \<le> \<bar>impactParCascXY cand\<bar>
     \<and> \<bar>impactParCascXY cand\<bar> \<le> impactParameterXYCascMax c
     \<and> impactParameterZCascMin c \<le> \<bar>impactParCascZ cand\<bar>
     \<and> \<bar>impactParCascZ cand\<bar> \<le> impactParameterZCascMax c
     \<and> ptPiFromCascMin c \<le> \<bar>sqrtSumOfSquares ext (pxBachFromCasc cand) (pyBachFromCasc cand)\<bar>
     \<and> ptPiFromCharmBaryonMin c
          \<le> \<bar>sqrtSumOfSquares ext (pxBachFromCharmBaryon cand) (pyBachFromCharmBaryon cand)\<bar>
     \<and> (applyTrkSelLf c \<longrightarrow>
           isSelectedTrackTpcQuality ext trackPiFromLam (nClustersTpcMin c) (nTpcCrossedRowsMin c)
             (tpcCrossedRowsOverFindableClustersRatioMin c) (tpcChi2PerClusterMax c)
         \<and> isSelectedTrackTpcQuality ext trackPrFromLam (nClustersTpcMin c) (nTpcCrossedRowsMin c)
             (tpcCrossedRowsOverFindableClustersRatioMin c) (tpcChi2PerClusterMax c)
         \<and> isSelectedTrackTpcQuality ext trackPiFromCasc (nClustersTpcMin c) (nTpcCrossedRowsMin c)
             (tpcCrossedRowsOverFindableClustersRatioMin c) (tpcChi2PerClusterMax c))
     \<and> isSelectedTrackTpcQuality ext trackPiFromCharm (nClustersTpcMin c) (nTpcCrossedRowsMin c)
         (tpcCrossedRowsOverFindableClustersRatioMin c) (tpcChi2PerClusterMax c)
     \<and> isSelectedTrackItsQuality ext trackPiFromCharm (nClustersItsMin c) (itsChi2PerClusterMax c)
     \<and> nClustersItsInnBarrMin c \<le> itsNClsInnerBarrel trackPiFromCharm)"
  unfolding topoSelections_def Let_def
  by (simp add: fst_applyCut if_distrib [where f = fst] not_less cong: if_cong)

lemma fst_topoSelections_registry:
  "fst (topoSelections c ext cand trackPiFromLam trackPrFromLam trackPiFromCasc trackPiFromCharm reg) =
   fst (topoSelections c ext cand trackPiFromLam trackPrFromLam trackPiFromCasc trackPiFromCharm [])"
  by (simp only: fst_topoSelections)

lemma length_topoSelections:
  "length (snd (topoSelections c ext cand trackPiFromLam trackPrFromLam trackPiFromCasc
      trackPiFromCharm reg)) = length reg + (if applyTrkSelLf c then 24 else 21)"
  unfolding topoSelections_def Let_def
  by (simp add: length_applyCut if_distrib [where f = snd] if_distrib [where f = length]
        cong: if_cong)


lemma tally_topoSelections_SignDec:
  "tally (snd (topoSelections c ext cand trackPiFromLam trackPrFromLam trackPiFromCasc
      trackPiFromCharm reg)) ''hSelSignDec'' x = tally reg ''hSelSignDec'' x"
  unfolding topoSelections_def Let_def
  by (simp add: tally_applyCut_other if_distrib [where f = snd]
        if_distrib [where f = "\<lambda>r. tally r h y" for h y] cong: if_cong)

subsection \<open>The PID and mass flags\<close>

lemma fst_pidSelections:
  "fst (pidSelections a (sPr, sPi, sCasc, sCharm) r reg) =
     (sPr = a \<and> sPi = a, sPr = a \<and> sPi = a \<and> sCasc = a,
      sPr = a \<and> sPi = a \<and> sCasc = a \<and> sCharm = a)"
  by (simp add: pidSelections_def)

lemma tally_pidSelections:
  "h \<noteq> ''hStatusCheck'' \<Longrightarrow> tally (snd (pidSelections a status r reg)) h x = tally reg h x"
  by (cases status) (simp add: pidSelections_def tally_fillIf)

lemma fst_massSelections:
  "fst (massSelections c ext cand pid r reg) =
     (\<bar>invMassLambda cand - MassLambda0 ext\<bar> < v0MassWindow c,
      \<bar>invMassCascade cand - MassXiMinus ext\<bar> < cascadeMassWindow c,
      invMassCharmBaryonMin c \<le> invMassCharmBaryon cand
        \<and> invMassCharmBaryon cand \<le> invMassCharmBaryonMax c)"
  by (cases pid) (simp add: massSelections_def)

lemma tally_massSelections:
  "h \<noteq> ''hStatusCheck'' \<Longrightarrow> h \<noteq> ''hSelMassLam'' \<Longrightarrow> h \<noteq> ''hSelMassCasc'' \<Longrightarrow>
   h \<noteq> ''hSelMassCharmBaryon'' \<Longrightarrow>
   tally (snd (massSelections c ext cand pid r reg)) h x = tally reg h x"
  by (cases pid) (simp add: massSelections_def tally_fillIf tally_fill)

subsection \<open>The loop body\<close>

lemma selectCandidate_fatal:
  assumes "usePidTpcOnly c = usePidTpcTofCombined c"
  shows "selectCandidate c ext cand trackPiFromLam trackPrFromLam trackPiFromCasc trackPiFromCharm s =
    Inl (Fatal ''Check the PID configurables, usePidTpcOnly and usePidTpcTofCombined can't have the same value''
      (s\<lparr>registry := snd (topoSelections c ext cand trackPiFromLam trackPrFromLam trackPiFromCasc
          trackPiFromCharm (registry s))\<rparr>))"
  using assms by (simp add: selectCandidate_def split_def)

lemma selectCandidate_row:
  assumes "usePidTpcOnly c \<noteq> usePidTpcTofCombined c"
    and "pidStatus c ext trackPiFromLam trackPrFromLam trackPiFromCasc trackPiFromCharm
           = (sPr, sPi, sCasc, sCharm)"
  shows "\<exists>reg hInv.
    selectCandidate c ext cand trackPiFromLam trackPrFromLam trackPiFromCasc trackPiFromCharm s =
    Inr \<lparr>registry = reg,
         hfSelToXiPi = hfSelToXiPi s @
           [\<lparr>statusPidLambda = (sPr = Accepted ext \<and> sPi = Accepted ext),
             statusPidCascade = (sPr = Accepted ext \<and> sPi = Accepted ext \<and> sCasc = Accepted ext),
             statusPidCharmBaryon = (sPr = Accepted ext \<and> sPi = Accepted ext
                \<and> sCasc = Accepted ext \<and> sCharm = Accepted ext),
             statusInvMassLambda = (\<bar>invMassLambda cand - MassLambda0 ext\<bar> < v0MassWindow c),
             statusInvMassCascade = (\<bar>invMassCascade cand - MassXiMinus ext\<bar> < cascadeMassWindow c),
             statusInvMassCharmBaryon = (invMassCharmBaryonMin c \<le> invMassCharmBaryon cand
                \<and> invMassCharmBaryon cand \<le> invMassCharmBaryonMax c),
             resultSelections = fst (topoSelections c ext cand trackPiFromLam trackPrFromLam
                trackPiFromCasc trackPiFromCharm []),
             infoTpcStored = storedInfoTpc trackPiFromLam trackPrFromLam trackPiFromCasc trackPiFromCharm,
             infoTofStored = storedInfoTof trackPiFromLam trackPrFromLam trackPiFromCasc trackPiFromCharm,
             tpcNSigmaPiFromCharmBaryon = tpcNSigmaPi trackPiFromCharm,
             tpcNSigmaPiFromCasc = tpcNSigmaPi trackPiFromCasc,
             tpcNSigmaPiFromLambda = tpcNSigmaPi trackPiFromLam,
             tpcNSigmaPrFromLambda = tpcNSigmaPr trackPrFromLam,
             tofNSigmaPiFromCharmBaryon = tofNSigmaPi trackPiFromCharm,
             tofNSigmaPiFromCasc = tofNSigmaPi trackPiFromCasc,
             tofNSigmaPiFromLambda = tofNSigmaPi trackPiFromLam,
             tofNSigmaPrFromLambda = tofNSigmaPr trackPrFromLam\<rparr>],
         hInvMassCharmBaryon = hInv\<rparr>"
  using assms unfolding selectCandidate_def
  by (simp add: split_def Let_def fst_pidSelections fst_massSelections
        fst_topoSelections_registry [of _ _ _ _ _ _ _ "registry s"])

lemma selectCandidate_valid:
  assumes "selectCandidate c ext cand trackPiFromLam trackPrFromLam trackPiFromCasc
             trackPiFromCharm s = Inr s'"
  shows "usePidTpcOnly c \<noteq> usePidTpcTofCombined c"
proof
  assume "usePidTpcOnly c = usePidTpcTofCombined c"
  from selectCandidate_fatal [OF this, of ext cand trackPiFromLam trackPrFromLam trackPiFromCasc
      trackPiFromCharm s] assms
  show False by simp
qed

lemma tally_selectCandidate:
  assumes "selectCandidate c ext cand trackPiFromLam trackPrFromLam trackPiFromCasc
             trackPiFromCharm s = Inr s'"
    and "h \<noteq> ''hStatusCheck''" and "h \<noteq> ''hSelMassLam''" and "h \<noteq> ''hSelMassCasc''"
    and "h \<noteq> ''hSelMassCharmBaryon''" and "h \<noteq> ''hSelPID''"
  shows "tally (registry s') h x =
         tally (snd (topoSelections c ext cand trackPiFromLam trackPrFromLam trackPiFromCasc
           trackPiFromCharm (registry s))) h x"
proof -
  have v: "usePidTpcOnly c \<noteq> usePidTpcTofCombined c"
    using assms(1) by (rule selectCandidate_valid)
  have "s' = projr (selectCandidate c ext cand trackPiFromLam trackPrFromLam trackPiFromCasc
             trackPiFromCharm s)"
    using assms(1) by simp
  then show ?thesis
    using v assms(2-) unfolding selectCandidate_def
    by (simp add: split_def Let_def tally_fillSelPID tally_massSelections tally_pidSelections)
qed

lemma fst_trackRoles:
  "fst (trackRoles trackV0PosDau trackV0NegDau sign reg) =
     (if 0 < sint sign then (trackV0PosDau, trackV0NegDau) else (trackV0NegDau, trackV0PosDau))"
  by (simp add: trackRoles_def)

lemma snd_trackRoles:
  "snd (trackRoles trackV0PosDau trackV0NegDau sign reg) =
     (if 0 < sint sign then fill reg ''hSelSignDec'' 1
      else if sint sign < 0 then fill reg ''hSelSignDec'' 0 else reg)"
  by (simp add: trackRoles_def)

lemma processCandidate_eq:
  "processCandidate c ext tracks lfTracks cand s =
     selectCandidate c ext cand
       (if 0 < sint (signDecay cand) then lfTracks (posTrackId cand) else lfTracks (negTrackId cand))
       (if 0 < sint (signDecay cand) then lfTracks (negTrackId cand) else lfTracks (posTrackId cand))
       (lfTracks (bachelorId cand)) (tracks (bachelorFromCharmBaryonId cand))
       (s\<lparr>registry := snd (trackRoles (lfTracks (posTrackId cand)) (lfTracks (negTrackId cand))
              (signDecay cand) (registry s))\<rparr>)"
  by (simp add: processCandidate_def Let_def split_def fst_trackRoles)

lemma processCandidate_row:
  assumes "usePidTpcOnly c \<noteq> usePidTpcTofCombined c"
  shows "\<exists>s'. processCandidate c ext tracks lfTracks cand s = Inr s'
          \<and> hfSelToXiPi s' = hfSelToXiPi s @ [emittedRow c ext tracks lfTracks cand]"
proof -
  let ?pi = "if 0 < sint (signDecay cand) then lfTracks (posTrackId cand)
             else lfTracks (negTrackId cand)"
  let ?pr = "if 0 < sint (signDecay cand) then lfTracks (negTrackId cand)
             else lfTracks (posTrackId cand)"
  let ?casc = "lfTracks (bachelorId cand)"
  let ?charm = "tracks (bachelorFromCharmBaryonId cand)"
  let ?s1 = "s\<lparr>registry := snd (trackRoles (lfTracks (posTrackId cand))
                (lfTracks (negTrackId cand)) (signDecay cand) (registry s))\<rparr>"
  obtain sPr sPi sCasc sCharm
    where st: "pidStatus c ext ?pi ?pr ?casc ?charm = (sPr, sPi, sCasc, sCharm)"
    by (cases "pidStatus c ext ?pi ?pr ?casc ?charm") blast
  have row: "emittedRow c ext tracks lfTracks cand =
     \<lparr>statusPidLambda = (sPr = Accepted ext \<and> sPi = Accepted ext),
      statusPidCascade = (sPr = Accepted ext \<and> sPi = Accepted ext \<and> sCasc = Accepted ext),
      statusPidCharmBaryon = (sPr = Accepted ext \<and> sPi = Accepted ext
         \<and> sCasc = Accepted ext \<and> sCharm = Accepted ext),
      statusInvMassLambda = (\<bar>invMassLambda cand - MassLambda0 ext\<bar> < v0MassWindow c),
      statusInvMassCascade = (\<bar>invMassCascade cand - MassXiMinus ext\<bar> < cascadeMassWindow c),
      statusInvMassCharmBaryon = (invMassCharmBaryonMin c \<le> invMassCharmBaryon cand
         \<and> invMassCharmBaryon cand \<le> invMassCharmBaryonMax c),
      resultSelections = fst (topoSelections c ext cand ?pi ?pr ?casc ?charm []),
      infoTpcStored = storedInfoTpc ?pi ?pr ?casc ?charm,
      infoTofStored = storedInfoTof ?pi ?pr ?casc ?charm,
      tpcNSigmaPiFromCharmBaryon = tpcNSigmaPi ?charm,
      tpcNSigmaPiFromCasc = tpcNSigmaPi ?casc,
      tpcNSigmaPiFromLambda = tpcNSigmaPi ?pi,
      tpcNSigmaPrFromLambda = tpcNSigmaPr ?pr,
      tofNSigmaPiFromCharmBaryon = tofNSigmaPi ?charm,
      tofNSigmaPiFromCasc = tofNSigmaPi ?casc,
      tofNSigmaPiFromLambda = tofNSigmaPi ?pi,
      tofNSigmaPrFromLambda = tofNSigmaPr ?pr\<rparr>"
    unfolding emittedRow_def Let_def st by (simp only: prod.case)
  from selectCandidate_row [OF assms st, of cand ?s1] obtain s'
    where sel: "selectCandidate c ext cand ?pi ?pr ?casc ?charm ?s1 = Inr s'"
      and rows: "hfSelToXiPi s' = hfSelToXiPi s @ [emittedRow c ext tracks lfTracks cand]"
    unfolding row by fastforce
  have "processCandidate c ext tracks lfTracks cand s = Inr s'"
    using sel by (simp only: processCandidate_eq)
  with rows show ?thesis by blast
qed

lemma emittedRow_pid:
  "statusPidCascade (emittedRow c ext tracks lfTracks cand)
     \<longrightarrow> statusPidLambda (emittedRow c ext tracks lfTracks cand)"
  "statusPidCharmBaryon (emittedRow c ext tracks lfTracks cand)
     \<longrightarrow> statusPidCascade (emittedRow c ext tracks lfTracks cand)"
  by (simp_all add: emittedRow_def Let_def split_def)

lemma emittedRow_mass:
  "statusInvMassLambda (emittedRow c ext tracks lfTracks cand) =
     (\<bar>invMassLambda cand - MassLambda0 ext\<bar> < v0MassWindow c)"
  "statusInvMassCascade (emittedRow c ext tracks lfTracks cand) =
     (\<bar>invMassCascade cand - MassXiMinus ext\<bar> < cascadeMassWindow c)"
  "statusInvMassCharmBaryon (emittedRow c ext tracks lfTracks cand) =
     (invMassCharmBaryonMin c \<le> invMassCharmBaryon cand
      \<and> invMassCharmBaryon cand \<le> invMassCharmBaryonMax c)"
  by (simp_all add: emittedRow_def Let_def split_def)

lemma processCandidate_same_row:
  assumes "processCandidate c ext tracks lfTracks cand s = Inr s'"
    and "hfSelToXiPi s' = hfSelToXiPi s @ [row]"
  shows "row = emittedRow c ext tracks lfTracks cand"
proof -
  have "usePidTpcOnly c \<noteq> usePidTpcTofCombined c"
    using assms(1) unfolding processCandidate_eq by (rule selectCandidate_valid)
  from processCandidate_row [OF this, of ext tracks lfTracks cand s] assms
  show ?thesis by auto
qed

subsection \<open>The concrete inputs evaluated\<close>

lemma sqrt_quarter: "sqrt (1 / 4) = 1 / 2"
  by (rule real_sqrt_unique) (simp_all add: power2_eq_square)

lemma example_radii:
  "sqrtSumOfSquares exampleExternals 3 4 = 5"
  "sqrtSumOfSquares exampleExternals 6 8 = 10"
  "sqrtSumOfSquares exampleExternals (1 / 2) 0 = 1 / 2"
  by (simp_all add: exampleExternals_def real_sqrt_unique sqrt_quarter)

lemma exampleExternals_simps:
  "isSelectedTrackTpcQuality exampleExternals t nCls nRows ratio chi2 =
     (nCls \<le> tpcNClsFound t \<and> nRows \<le> tpcNClsCrossedRows t
        \<and> ratio \<le> tpcCrossedRowsOverFindableCls t \<and> tpcChi2NCl t \<le> chi2)"
  "isSelectedTrackItsQuality exampleExternals t nCls chi2 =
     (nCls \<le> itsNCls t \<and> itsChi2NCl t \<le> chi2)"
  "statusTpc (selectorPion exampleExternals) t =
     (if hasTPC t \<and> \<bar>tpcNSigmaPi t\<bar> \<le> 3 then 3 else 1)"
  "statusTpcOrTof (selectorPion exampleExternals) t =
     (if (hasTPC t \<and> \<bar>tpcNSigmaPi t\<bar> \<le> 3) \<or> (hasTOF t \<and> \<bar>tofNSigmaPi t\<bar> \<le> 3)
      then 3 else 1)"
  "statusTpc (selectorProton exampleExternals) t =
     (if hasTPC t \<and> \<bar>tpcNSigmaPr t\<bar> \<le> 3 then 3 else 1)"
  "statusTpcOrTof (selectorProton exampleExternals) t =
     (if (hasTPC t \<and> \<bar>tpcNSigmaPr t\<bar> \<le> 3) \<or> (hasTOF t \<and> \<bar>tofNSigmaPr t\<bar> \<le> 3)
      then 3 else 1)"
  "Accepted exampleExternals = 3"
  "MassLambda0 exampleExternals = 1.115683"
  "MassXiMinus exampleExternals = 1.32171"
  by (simp_all add: exampleExternals_def)

lemmas example_defs = cfgDefault_def pionTrack_def protonTrack_def bachelorTrack_def
  charmBachelorTrack_def exampleLfTracks_def exampleTracks_def exampleCandidate_def
  lowRadiusCandidate_def emptyState_def

lemma example_lookups:
  "exampleLfTracks 0 = pionTrack" "exampleLfTracks 1 = protonTrack"
  "exampleLfTracks 2 = bachelorTrack" "exampleTracks i = charmBachelorTrack"
  by (simp_all add: exampleLfTracks_def exampleTracks_def)

lemma example_pidStatus:
  "pidStatus cfgDefault exampleExternals pionTrack protonTrack bachelorTrack charmBachelorTrack
     = (3, 3, 3, 3)"
  by (simp add: pidStatus_def exampleExternals_def cfgDefault_def pionTrack_def
        protonTrack_def bachelorTrack_def charmBachelorTrack_def)

subsection \<open>The overall flag\<close>

text \<open>
  C1. With a valid PID configuration, the loop body appends one row for the candidate,
  and the flag \<open>resultSelections\<close> of that row is the conjunction of the selections: the
  four pseudorapidity bounds, the two minimum decay radii, the two minimum cosines of
  pointing angle, the three maximum daughter distances, the minimum distances to the
  primary vertex of the two V0 daughters and of the cascade bachelor, the ranges of the
  impact parameters of the charm bachelor and of the cascade, the two minimum transverse
  momenta, the TPC quality of the three light-flavour tracks if and only if
  \<open>applyTrkSelLf\<close> is set, and the TPC and ITS quality of the charm bachelor.
\<close>

theorem resultSelections_is_conjunction:
  assumes "usePidTpcOnly c \<noteq> usePidTpcTofCombined c"
  shows "\<exists>s' row. processCandidate c ext tracks lfTracks cand s = Inr s'
    \<and> hfSelToXiPi s' = hfSelToXiPi s @ [row]
    \<and> resultSelections row =
    (let trackPiFromLam = (if 0 < sint (signDecay cand) then lfTracks (posTrackId cand)
                           else lfTracks (negTrackId cand));
         trackPrFromLam = (if 0 < sint (signDecay cand) then lfTracks (negTrackId cand)
                           else lfTracks (posTrackId cand));
         trackPiFromCasc = lfTracks (bachelorId cand);
         trackPiFromCharm = tracks (bachelorFromCharmBaryonId cand)
     in \<bar>etaV0PosDau cand\<bar> \<le> etaTrackLFDauMax c
     \<and> \<bar>etaV0NegDau cand\<bar> \<le> etaTrackLFDauMax c
     \<and> \<bar>etaBachFromCasc cand\<bar> \<le> etaTrackLFDauMax c
     \<and> \<bar>etaBachFromCharmBaryon cand\<bar> \<le> etaTrackCharmBachMax c
     \<and> radiusCascMin c \<le> sqrtSumOfSquares ext (xDecayVtxCascade cand) (yDecayVtxCascade cand)
     \<and> radiusV0Min c \<le> sqrtSumOfSquares ext (xDecayVtxV0 cand) (yDecayVtxV0 cand)
     \<and> cosPACascMin c \<le> cosPACasc cand
     \<and> cosPAV0Min c \<le> cosPAV0 cand
     \<and> dcaCascDau cand \<le> dcaCascDauMax c
     \<and> dcaV0Dau cand \<le> dcaV0DauMax c
     \<and> dcaCharmBaryonDau cand \<le> dcaCharmBaryonDauMax c
     \<and> dcaPosToPvMin c \<le> \<bar>dcaXYToPvV0Dau0 cand\<bar>
     \<and> dcaNegToPvMin c \<le> \<bar>dcaXYToPvV0Dau1 cand\<bar>
     \<and> dcaBachToPvMin c \<le> \<bar>dcaXYToPvCascDau cand\<bar>
     \<and> impactParameterXYPiFromCharmBaryonMin c \<le> \<bar>impactParBachFromCharmBaryonXY cand\<bar>
     \<and> \<bar>impactParBachFromCharmBaryonXY cand\<bar> \<le> impactParameterXYPiFromCharmBaryonMax c
     \<and> impactParameterZPiFromCharmBaryonMin c \<le> \<bar>impactParBachFromCharmBaryonZ cand\<bar>
     \<and> \<bar>impactParBachFromCharmBaryonZ cand\<bar> \<le> impactParameterZPiFromCharmBaryonMax c
     \<and> impactParameterXYCascMin c \<le> \<bar>impactParCascXY cand\<bar>
     \<and> \<bar>impactParCascXY cand\<bar> \<le> impactParameterXYCascMax c
     \<and> impactParameterZCascMin c \<le> \<bar>impactParCascZ cand\<bar>
     \<and> \<bar>impactParCascZ cand\<bar> \<le> impactParameterZCascMax c
     \<and> ptPiFromCascMin c \<le> \<bar>sqrtSumOfSquares ext (pxBachFromCasc cand) (pyBachFromCasc cand)\<bar>
     \<and> ptPiFromCharmBaryonMin c
          \<le> \<bar>sqrtSumOfSquares ext (pxBachFromCharmBaryon cand) (pyBachFromCharmBaryon cand)\<bar>
     \<and> (applyTrkSelLf c \<longrightarrow>
           isSelectedTrackTpcQuality ext trackPiFromLam (nClustersTpcMin c) (nTpcCrossedRowsMin c)
             (tpcCrossedRowsOverFindableClustersRatioMin c) (tpcChi2PerClusterMax c)
         \<and> isSelectedTrackTpcQuality ext trackPrFromLam (nClustersTpcMin c) (nTpcCrossedRowsMin c)
             (tpcCrossedRowsOverFindableClustersRatioMin c) (tpcChi2PerClusterMax c)
         \<and> isSelectedTrackTpcQuality ext trackPiFromCasc (nClustersTpcMin c) (nTpcCrossedRowsMin c)
             (tpcCrossedRowsOverFindableClustersRatioMin c) (tpcChi2PerClusterMax c))
     \<and> isSelectedTrackTpcQuality ext trackPiFromCharm (nClustersTpcMin c) (nTpcCrossedRowsMin c)
         (tpcCrossedRowsOverFindableClustersRatioMin c) (tpcChi2PerClusterMax c)
     \<and> isSelectedTrackItsQuality ext trackPiFromCharm (nClustersItsMin c) (itsChi2PerClusterMax c)
     \<and> nClustersItsInnBarrMin c \<le> itsNClsInnerBarrel trackPiFromCharm)"
proof -
  let ?pi = "if 0 < sint (signDecay cand) then lfTracks (posTrackId cand)
             else lfTracks (negTrackId cand)"
  let ?pr = "if 0 < sint (signDecay cand) then lfTracks (negTrackId cand)
             else lfTracks (posTrackId cand)"
  let ?casc = "lfTracks (bachelorId cand)"
  let ?charm = "tracks (bachelorFromCharmBaryonId cand)"
  let ?s1 = "s\<lparr>registry := snd (trackRoles (lfTracks (posTrackId cand))
                (lfTracks (negTrackId cand)) (signDecay cand) (registry s))\<rparr>"
  obtain sPr sPi sCasc sCharm
    where st: "pidStatus c ext ?pi ?pr ?casc ?charm = (sPr, sPi, sCasc, sCharm)"
    by (cases "pidStatus c ext ?pi ?pr ?casc ?charm") blast
  from selectCandidate_row [OF assms st, of cand ?s1] obtain s' row
    where sel: "selectCandidate c ext cand ?pi ?pr ?casc ?charm ?s1 = Inr s'"
      and rows: "hfSelToXiPi s' = hfSelToXiPi s @ [row]"
      and flag: "resultSelections row = fst (topoSelections c ext cand ?pi ?pr ?casc ?charm [])"
    by fastforce
  have "processCandidate c ext tracks lfTracks cand s = Inr s'"
    using sel by (simp only: processCandidate_eq)
  moreover note rows
  moreover have "resultSelections row = (let trackPiFromLam = ?pi; trackPrFromLam = ?pr;
      trackPiFromCasc = ?casc; trackPiFromCharm = ?charm
     in fst (topoSelections c ext cand trackPiFromLam trackPrFromLam trackPiFromCasc
          trackPiFromCharm []))"
    using flag by (simp only: Let_def)
  ultimately show ?thesis
    unfolding fst_topoSelections by blast
qed

theorem resultSelections_is_conjunction_witness:
  "usePidTpcOnly cfgDefault \<noteq> usePidTpcTofCombined cfgDefault
   \<and> (\<exists>s' row. processCandidate cfgDefault exampleExternals exampleTracks exampleLfTracks
          exampleCandidate emptyState = Inr s'
        \<and> hfSelToXiPi s' = [row] \<and> resultSelections row)
   \<and> (\<exists>s' row. processCandidate cfgDefault exampleExternals exampleTracks exampleLfTracks
          lowRadiusCandidate emptyState = Inr s'
        \<and> hfSelToXiPi s' = [row] \<and> \<not> resultSelections row)"
proof -
  have v: "usePidTpcOnly cfgDefault \<noteq> usePidTpcTofCombined cfgDefault"
    by (simp add: cfgDefault_def)
  show ?thesis
    using v
      resultSelections_is_conjunction [OF v, of exampleExternals exampleTracks exampleLfTracks
        exampleCandidate emptyState]
      resultSelections_is_conjunction [OF v, of exampleExternals exampleTracks exampleLfTracks
        lowRadiusCandidate emptyState]
    by (simp add: example_defs exampleExternals_simps example_radii)
qed

subsection \<open>The PID flags\<close>

text \<open>
  C3. With a valid PID configuration, the three PID flags of the row appended for a
  candidate are nested: if \<open>statusPidCascade\<close> is set then so is \<open>statusPidLambda\<close>, and
  if \<open>statusPidCharmBaryon\<close> is set then so is \<open>statusPidCascade\<close>.
\<close>

theorem pid_flags_nested:
  assumes "usePidTpcOnly c \<noteq> usePidTpcTofCombined c"
  shows "\<exists>s' row. processCandidate c ext tracks lfTracks cand s = Inr s'
    \<and> hfSelToXiPi s' = hfSelToXiPi s @ [row]
    \<and> (statusPidCascade row \<longrightarrow> statusPidLambda row)
    \<and> (statusPidCharmBaryon row \<longrightarrow> statusPidCascade row)"
  using processCandidate_row [OF assms, of ext tracks lfTracks cand s]
    emittedRow_pid [of c ext tracks lfTracks cand]
  by blast

theorem pid_flags_nested_witness:
  "usePidTpcOnly cfgDefault \<noteq> usePidTpcTofCombined cfgDefault
   \<and> (\<exists>s' row. processCandidate cfgDefault exampleExternals exampleTracks exampleLfTracks
          exampleCandidate emptyState = Inr s'
        \<and> hfSelToXiPi s' = [row]
        \<and> statusPidCharmBaryon row \<and> statusPidCascade row \<and> statusPidLambda row)"
proof -
  have v: "usePidTpcOnly cfgDefault \<noteq> usePidTpcTofCombined cfgDefault"
    by (simp add: cfgDefault_def)
  from pid_flags_nested [OF v, of exampleExternals exampleTracks exampleLfTracks
      exampleCandidate emptyState]
  obtain s' row
    where p: "processCandidate cfgDefault exampleExternals exampleTracks exampleLfTracks
                exampleCandidate emptyState = Inr s'"
      and r: "hfSelToXiPi s' = hfSelToXiPi emptyState @ [row]"
      and n1: "statusPidCascade row \<longrightarrow> statusPidLambda row"
      and n2: "statusPidCharmBaryon row \<longrightarrow> statusPidCascade row"
    by blast
  have "row = emittedRow cfgDefault exampleExternals exampleTracks exampleLfTracks
                exampleCandidate"
    using p r by (rule processCandidate_same_row)
  then have "statusPidCharmBaryon row"
    by (simp add: emittedRow_def exampleCandidate_def example_lookups example_pidStatus
          exampleExternals_simps)
  with n1 n2 have "statusPidCharmBaryon row \<and> statusPidCascade row \<and> statusPidLambda row"
    by blast
  moreover have "hfSelToXiPi s' = [row]"
    using r by (simp add: emptyState_def)
  ultimately show ?thesis using v p by blast
qed

subsection \<open>The mass windows\<close>

text \<open>
  C5. With a valid PID configuration, the Lambda flag of the appended row is set exactly
  when \<open>\<bar>invMassLambda - MassLambda0\<bar> < v0MassWindow\<close>, and the cascade flag exactly when
  \<open>\<bar>invMassCascade - MassXiMinus\<bar> < cascadeMassWindow\<close>. Each window is the open interval
  of that half-width around the reference mass: a mass at the reference plus or minus the
  tolerance is rejected, a mass strictly between the two is accepted.
\<close>

theorem lambda_cascade_mass_windows:
  assumes "usePidTpcOnly c \<noteq> usePidTpcTofCombined c"
  shows "\<exists>s' row. processCandidate c ext tracks lfTracks cand s = Inr s'
    \<and> hfSelToXiPi s' = hfSelToXiPi s @ [row]
    \<and> statusInvMassLambda row = (\<bar>invMassLambda cand - MassLambda0 ext\<bar> < v0MassWindow c)
    \<and> statusInvMassCascade row = (\<bar>invMassCascade cand - MassXiMinus ext\<bar> < cascadeMassWindow c)
    \<and> statusInvMassLambda row =
        (MassLambda0 ext - v0MassWindow c < invMassLambda cand
         \<and> invMassLambda cand < MassLambda0 ext + v0MassWindow c)
    \<and> statusInvMassCascade row =
        (MassXiMinus ext - cascadeMassWindow c < invMassCascade cand
         \<and> invMassCascade cand < MassXiMinus ext + cascadeMassWindow c)
    \<and> (invMassLambda cand = MassLambda0 ext + v0MassWindow c
        \<or> invMassLambda cand = MassLambda0 ext - v0MassWindow c
        \<longrightarrow> \<not> statusInvMassLambda row)
    \<and> (invMassCascade cand = MassXiMinus ext + cascadeMassWindow c
        \<or> invMassCascade cand = MassXiMinus ext - cascadeMassWindow c
        \<longrightarrow> \<not> statusInvMassCascade row)"
proof -
  from processCandidate_row [OF assms, of ext tracks lfTracks cand s] obtain s'
    where p: "processCandidate c ext tracks lfTracks cand s = Inr s'"
      and r: "hfSelToXiPi s' = hfSelToXiPi s @ [emittedRow c ext tracks lfTracks cand]"
    by blast
  let ?row = "emittedRow c ext tracks lfTracks cand"
  have l: "statusInvMassLambda ?row = (\<bar>invMassLambda cand - MassLambda0 ext\<bar> < v0MassWindow c)"
    and x: "statusInvMassCascade ?row
              = (\<bar>invMassCascade cand - MassXiMinus ext\<bar> < cascadeMassWindow c)"
    by (simp_all only: emittedRow_mass)
  have "statusInvMassLambda ?row =
        (MassLambda0 ext - v0MassWindow c < invMassLambda cand
         \<and> invMassLambda cand < MassLambda0 ext + v0MassWindow c)"
    unfolding l by (auto simp: abs_less_iff)
  moreover have "statusInvMassCascade ?row =
        (MassXiMinus ext - cascadeMassWindow c < invMassCascade cand
         \<and> invMassCascade cand < MassXiMinus ext + cascadeMassWindow c)"
    unfolding x by (auto simp: abs_less_iff)
  moreover have "invMassLambda cand = MassLambda0 ext + v0MassWindow c
        \<or> invMassLambda cand = MassLambda0 ext - v0MassWindow c
        \<longrightarrow> \<not> statusInvMassLambda ?row"
    unfolding l by auto
  moreover have "invMassCascade cand = MassXiMinus ext + cascadeMassWindow c
        \<or> invMassCascade cand = MassXiMinus ext - cascadeMassWindow c
        \<longrightarrow> \<not> statusInvMassCascade ?row"
    unfolding x by auto
  ultimately show ?thesis using p r l x by blast
qed

theorem lambda_cascade_mass_windows_witness:
  "usePidTpcOnly cfgDefault \<noteq> usePidTpcTofCombined cfgDefault
   \<and> (\<exists>s' row. processCandidate cfgDefault exampleExternals exampleTracks exampleLfTracks
          exampleCandidate emptyState = Inr s'
        \<and> hfSelToXiPi s' = [row] \<and> statusInvMassLambda row \<and> statusInvMassCascade row)
   \<and> (\<exists>s' row. processCandidate cfgDefault exampleExternals exampleTracks exampleLfTracks
          (exampleCandidate\<lparr>invMassLambda := 1.125683, invMassCascade := 1.31171\<rparr>)
          emptyState = Inr s'
        \<and> hfSelToXiPi s' = [row] \<and> \<not> statusInvMassLambda row \<and> \<not> statusInvMassCascade row)"
proof -
  have v: "usePidTpcOnly cfgDefault \<noteq> usePidTpcTofCombined cfgDefault"
    by (simp add: cfgDefault_def)
  have e: "hfSelToXiPi emptyState = []" "v0MassWindow cfgDefault = 0.01"
    "cascadeMassWindow cfgDefault = 0.01" "invMassLambda exampleCandidate = 1.116"
    "invMassCascade exampleCandidate = 1.322"
    by (simp_all add: emptyState_def cfgDefault_def exampleCandidate_def)
  show ?thesis
    using v
      lambda_cascade_mass_windows [OF v, of exampleExternals exampleTracks exampleLfTracks
        exampleCandidate emptyState]
      lambda_cascade_mass_windows [OF v, of exampleExternals exampleTracks exampleLfTracks
        "exampleCandidate\<lparr>invMassLambda := 1.125683, invMassCascade := 1.31171\<rparr>" emptyState]
    by (simp add: e exampleExternals_simps; blast)
qed

text \<open>
  C6. With a valid PID configuration, the charm-baryon mass flag of the appended row is
  set exactly when the mass lies in the closed interval from \<open>invMassCharmBaryonMin\<close>
  to \<open>invMassCharmBaryonMax\<close>; a mass equal to either bound of a non-empty interval is
  accepted.
\<close>

theorem charm_baryon_mass_interval:
  assumes "usePidTpcOnly c \<noteq> usePidTpcTofCombined c"
  shows "\<exists>s' row. processCandidate c ext tracks lfTracks cand s = Inr s'
    \<and> hfSelToXiPi s' = hfSelToXiPi s @ [row]
    \<and> statusInvMassCharmBaryon row =
        (invMassCharmBaryon cand \<in> {invMassCharmBaryonMin c .. invMassCharmBaryonMax c})
    \<and> (invMassCharmBaryonMin c \<le> invMassCharmBaryonMax c
        \<and> (invMassCharmBaryon cand = invMassCharmBaryonMin c
           \<or> invMassCharmBaryon cand = invMassCharmBaryonMax c)
        \<longrightarrow> statusInvMassCharmBaryon row)"
proof -
  from processCandidate_row [OF assms, of ext tracks lfTracks cand s] obtain s'
    where p: "processCandidate c ext tracks lfTracks cand s = Inr s'"
      and r: "hfSelToXiPi s' = hfSelToXiPi s @ [emittedRow c ext tracks lfTracks cand]"
    by blast
  let ?row = "emittedRow c ext tracks lfTracks cand"
  have m: "statusInvMassCharmBaryon ?row =
        (invMassCharmBaryon cand \<in> {invMassCharmBaryonMin c .. invMassCharmBaryonMax c})"
    by (simp add: emittedRow_mass)
  moreover have "invMassCharmBaryonMin c \<le> invMassCharmBaryonMax c
        \<and> (invMassCharmBaryon cand = invMassCharmBaryonMin c
           \<or> invMassCharmBaryon cand = invMassCharmBaryonMax c)
        \<longrightarrow> statusInvMassCharmBaryon ?row"
    unfolding m by auto
  ultimately show ?thesis using p r by blast
qed

theorem charm_baryon_mass_interval_witness:
  "usePidTpcOnly cfgDefault \<noteq> usePidTpcTofCombined cfgDefault
   \<and> invMassCharmBaryonMin cfgDefault \<le> invMassCharmBaryonMax cfgDefault
   \<and> (\<exists>s' row. processCandidate cfgDefault exampleExternals exampleTracks exampleLfTracks
          (exampleCandidate\<lparr>invMassCharmBaryon := 2\<rparr>) emptyState = Inr s'
        \<and> hfSelToXiPi s' = [row] \<and> statusInvMassCharmBaryon row)
   \<and> (\<exists>s' row. processCandidate cfgDefault exampleExternals exampleTracks exampleLfTracks
          (exampleCandidate\<lparr>invMassCharmBaryon := 3.1\<rparr>) emptyState = Inr s'
        \<and> hfSelToXiPi s' = [row] \<and> statusInvMassCharmBaryon row)
   \<and> (\<exists>s' row. processCandidate cfgDefault exampleExternals exampleTracks exampleLfTracks
          (exampleCandidate\<lparr>invMassCharmBaryon := 3.2\<rparr>) emptyState = Inr s'
        \<and> hfSelToXiPi s' = [row] \<and> \<not> statusInvMassCharmBaryon row)"
proof -
  have v: "usePidTpcOnly cfgDefault \<noteq> usePidTpcTofCombined cfgDefault"
    by (simp add: cfgDefault_def)
  have e: "hfSelToXiPi emptyState = []" "invMassCharmBaryonMin cfgDefault = 2"
    "invMassCharmBaryonMax cfgDefault = 3.1"
    by (simp_all add: emptyState_def cfgDefault_def)
  show ?thesis
    using v
      charm_baryon_mass_interval [OF v, of exampleExternals exampleTracks exampleLfTracks
        "exampleCandidate\<lparr>invMassCharmBaryon := 2\<rparr>" emptyState]
      charm_baryon_mass_interval [OF v, of exampleExternals exampleTracks exampleLfTracks
        "exampleCandidate\<lparr>invMassCharmBaryon := 3.1\<rparr>" emptyState]
      charm_baryon_mass_interval [OF v, of exampleExternals exampleTracks exampleLfTracks
        "exampleCandidate\<lparr>invMassCharmBaryon := 3.2\<rparr>" emptyState]
    by (simp add: e)
qed

subsection \<open>The roles of the V0 daughters\<close>

lemma emittedRow_sigmas:
  "tpcNSigmaPiFromLambda (emittedRow c ext tracks lfTracks cand) =
     tpcNSigmaPi (if 0 < sint (signDecay cand) then lfTracks (posTrackId cand)
                  else lfTracks (negTrackId cand))"
  "tofNSigmaPiFromLambda (emittedRow c ext tracks lfTracks cand) =
     tofNSigmaPi (if 0 < sint (signDecay cand) then lfTracks (posTrackId cand)
                  else lfTracks (negTrackId cand))"
  "tpcNSigmaPrFromLambda (emittedRow c ext tracks lfTracks cand) =
     tpcNSigmaPr (if 0 < sint (signDecay cand) then lfTracks (negTrackId cand)
                  else lfTracks (posTrackId cand))"
  "tofNSigmaPrFromLambda (emittedRow c ext tracks lfTracks cand) =
     tofNSigmaPr (if 0 < sint (signDecay cand) then lfTracks (negTrackId cand)
                  else lfTracks (posTrackId cand))"
  "tpcNSigmaPiFromCasc (emittedRow c ext tracks lfTracks cand) =
     tpcNSigmaPi (lfTracks (bachelorId cand))"
  "tofNSigmaPiFromCasc (emittedRow c ext tracks lfTracks cand) =
     tofNSigmaPi (lfTracks (bachelorId cand))"
  "tpcNSigmaPiFromCharmBaryon (emittedRow c ext tracks lfTracks cand) =
     tpcNSigmaPi (tracks (bachelorFromCharmBaryonId cand))"
  "tofNSigmaPiFromCharmBaryon (emittedRow c ext tracks lfTracks cand) =
     tofNSigmaPi (tracks (bachelorFromCharmBaryonId cand))"
  by (simp_all add: emittedRow_def Let_def split_def)

lemma tally_trackRoles:
  "h \<noteq> ''hSelSignDec'' \<Longrightarrow> tally (snd (trackRoles a b sg reg)) h x = tally reg h x"
  by (simp add: snd_trackRoles tally_fill)

lemma processCandidate_tally_SignDec:
  assumes "processCandidate c ext tracks lfTracks cand s = Inr s'"
  shows "tally (registry s') ''hSelSignDec'' x =
         tally (snd (trackRoles (lfTracks (posTrackId cand)) (lfTracks (negTrackId cand))
                  (signDecay cand) (registry s))) ''hSelSignDec'' x"
proof -
  have "tally (registry s') ''hSelSignDec'' x =
        tally (snd (topoSelections c ext cand
          (if 0 < sint (signDecay cand) then lfTracks (posTrackId cand)
           else lfTracks (negTrackId cand))
          (if 0 < sint (signDecay cand) then lfTracks (negTrackId cand)
           else lfTracks (posTrackId cand))
          (lfTracks (bachelorId cand)) (tracks (bachelorFromCharmBaryonId cand))
          (registry (s\<lparr>registry := snd (trackRoles (lfTracks (posTrackId cand))
              (lfTracks (negTrackId cand)) (signDecay cand) (registry s))\<rparr>)))) ''hSelSignDec'' x"
    by (rule tally_selectCandidate [OF assms [unfolded processCandidate_eq]]) simp_all
  then show ?thesis by (simp add: tally_topoSelections_SignDec)
qed


lemma storedInfoTpc_bits:
  "storedInfoTpc a b d e =
     (if hasTPC a then 1 else 0) + (if hasTPC b then 2 else 0)
     + (if hasTPC d then 4 else 0) + (if hasTPC e then 8 else 0)"
  by (simp add: storedInfoTpc_def SETBIT_def PiFromLam_def PrFromLam_def PiFromCasc_def
        PiFromCharm_def)

lemma storedInfoTof_bits:
  "storedInfoTof a b d e =
     (if hasTOF a then 1 else 0) + (if hasTOF b then 2 else 0)
     + (if hasTOF d then 4 else 0) + (if hasTOF e then 8 else 0)"
  by (simp add: storedInfoTof_def SETBIT_def PiFromLam_def PrFromLam_def PiFromCasc_def
        PiFromCharm_def)

lemma emittedRow_info:
  "infoTpcStored (emittedRow c ext tracks lfTracks cand) =
     storedInfoTpc
       (if 0 < sint (signDecay cand) then lfTracks (posTrackId cand)
        else lfTracks (negTrackId cand))
       (if 0 < sint (signDecay cand) then lfTracks (negTrackId cand)
        else lfTracks (posTrackId cand))
       (lfTracks (bachelorId cand)) (tracks (bachelorFromCharmBaryonId cand))"
  "infoTofStored (emittedRow c ext tracks lfTracks cand) =
     storedInfoTof
       (if 0 < sint (signDecay cand) then lfTracks (posTrackId cand)
        else lfTracks (negTrackId cand))
       (if 0 < sint (signDecay cand) then lfTracks (negTrackId cand)
        else lfTracks (posTrackId cand))
       (lfTracks (bachelorId cand)) (tracks (bachelorFromCharmBaryonId cand))"
  by (simp_all add: emittedRow_def Let_def split_def)

lemma emittedRow_resultSelections:
  "resultSelections (emittedRow c ext tracks lfTracks cand) =
     fst (topoSelections c ext cand
       (if 0 < sint (signDecay cand) then lfTracks (posTrackId cand)
        else lfTracks (negTrackId cand))
       (if 0 < sint (signDecay cand) then lfTracks (negTrackId cand)
        else lfTracks (posTrackId cand))
       (lfTracks (bachelorId cand)) (tracks (bachelorFromCharmBaryonId cand)) [])"
  by (simp add: emittedRow_def Let_def split_def)

lemma tally_topoSelections_TPCQualityLam:
  assumes "applyTrkSelLf c"
  shows "tally (snd (topoSelections c ext cand trackPiFromLam trackPrFromLam trackPiFromCasc
      trackPiFromCharm reg)) ''hSelTPCQualityPiFromLam'' x =
   (if x = (if isSelectedTrackTpcQuality ext trackPiFromLam (nClustersTpcMin c)
                 (nTpcCrossedRowsMin c) (tpcCrossedRowsOverFindableClustersRatioMin c)
                 (tpcChi2PerClusterMax c) then 1 else 0)
    then Suc (tally reg ''hSelTPCQualityPiFromLam'' x)
    else tally reg ''hSelTPCQualityPiFromLam'' x)"
    and "tally (snd (topoSelections c ext cand trackPiFromLam trackPrFromLam trackPiFromCasc
      trackPiFromCharm reg)) ''hSelTPCQualityPrFromLam'' x =
   (if x = (if isSelectedTrackTpcQuality ext trackPrFromLam (nClustersTpcMin c)
                 (nTpcCrossedRowsMin c) (tpcCrossedRowsOverFindableClustersRatioMin c)
                 (tpcChi2PerClusterMax c) then 1 else 0)
    then Suc (tally reg ''hSelTPCQualityPrFromLam'' x)
    else tally reg ''hSelTPCQualityPrFromLam'' x)"
  unfolding topoSelections_def Let_def using assms
  by (simp_all add: tally_applyCut_other tally_applyCut_same cong: if_cong)

lemma processCandidate_tally_TPCQualityLam:
  assumes "processCandidate c ext tracks lfTracks cand s = Inr s'" and "applyTrkSelLf c"
  shows "tally (registry s') ''hSelTPCQualityPiFromLam'' x =
   (if x = (if isSelectedTrackTpcQuality ext
                 (if 0 < sint (signDecay cand) then lfTracks (posTrackId cand)
                  else lfTracks (negTrackId cand))
                 (nClustersTpcMin c) (nTpcCrossedRowsMin c)
                 (tpcCrossedRowsOverFindableClustersRatioMin c) (tpcChi2PerClusterMax c)
            then 1 else 0)
    then Suc (tally (registry s) ''hSelTPCQualityPiFromLam'' x)
    else tally (registry s) ''hSelTPCQualityPiFromLam'' x)"
    and "tally (registry s') ''hSelTPCQualityPrFromLam'' x =
   (if x = (if isSelectedTrackTpcQuality ext
                 (if 0 < sint (signDecay cand) then lfTracks (negTrackId cand)
                  else lfTracks (posTrackId cand))
                 (nClustersTpcMin c) (nTpcCrossedRowsMin c)
                 (tpcCrossedRowsOverFindableClustersRatioMin c) (tpcChi2PerClusterMax c)
            then 1 else 0)
    then Suc (tally (registry s) ''hSelTPCQualityPrFromLam'' x)
    else tally (registry s) ''hSelTPCQualityPrFromLam'' x)"
proof -
  let ?pi = "if 0 < sint (signDecay cand) then lfTracks (posTrackId cand)
             else lfTracks (negTrackId cand)"
  let ?pr = "if 0 < sint (signDecay cand) then lfTracks (negTrackId cand)
             else lfTracks (posTrackId cand)"
  let ?reg = "registry (s\<lparr>registry := snd (trackRoles (lfTracks (posTrackId cand))
              (lfTracks (negTrackId cand)) (signDecay cand) (registry s))\<rparr>)"
  have "tally (registry s') ''hSelTPCQualityPiFromLam'' x =
        tally (snd (topoSelections c ext cand ?pi ?pr (lfTracks (bachelorId cand))
          (tracks (bachelorFromCharmBaryonId cand)) ?reg)) ''hSelTPCQualityPiFromLam'' x"
    by (rule tally_selectCandidate [OF assms(1) [unfolded processCandidate_eq]]) simp_all
  then show "tally (registry s') ''hSelTPCQualityPiFromLam'' x =
   (if x = (if isSelectedTrackTpcQuality ext ?pi
                 (nClustersTpcMin c) (nTpcCrossedRowsMin c)
                 (tpcCrossedRowsOverFindableClustersRatioMin c) (tpcChi2PerClusterMax c)
            then 1 else 0)
    then Suc (tally (registry s) ''hSelTPCQualityPiFromLam'' x)
    else tally (registry s) ''hSelTPCQualityPiFromLam'' x)"
    by (simp only: tally_topoSelections_TPCQualityLam(1) [OF assms(2)])
       (simp add: tally_trackRoles)
  have "tally (registry s') ''hSelTPCQualityPrFromLam'' x =
        tally (snd (topoSelections c ext cand ?pi ?pr (lfTracks (bachelorId cand))
          (tracks (bachelorFromCharmBaryonId cand)) ?reg)) ''hSelTPCQualityPrFromLam'' x"
    by (rule tally_selectCandidate [OF assms(1) [unfolded processCandidate_eq]]) simp_all
  then show "tally (registry s') ''hSelTPCQualityPrFromLam'' x =
   (if x = (if isSelectedTrackTpcQuality ext ?pr
                 (nClustersTpcMin c) (nTpcCrossedRowsMin c)
                 (tpcCrossedRowsOverFindableClustersRatioMin c) (tpcChi2PerClusterMax c)
            then 1 else 0)
    then Suc (tally (registry s) ''hSelTPCQualityPrFromLam'' x)
    else tally (registry s) ''hSelTPCQualityPrFromLam'' x)"
    by (simp only: tally_topoSelections_TPCQualityLam(2) [OF assms(2)])
       (simp add: tally_trackRoles)
qed

lemma emittedRow_pid_verdicts:
  assumes "usePidTpcOnly c \<noteq> usePidTpcTofCombined c"
  shows "statusPidLambda (emittedRow c ext tracks lfTracks cand) =
     ((if usePidTpcOnly c then statusTpc (selectorProton ext) else statusTpcOrTof (selectorProton ext))
        (if 0 < sint (signDecay cand) then lfTracks (negTrackId cand)
         else lfTracks (posTrackId cand)) = Accepted ext
      \<and> (if usePidTpcOnly c then statusTpc (selectorPion ext) else statusTpcOrTof (selectorPion ext))
        (if 0 < sint (signDecay cand) then lfTracks (posTrackId cand)
         else lfTracks (negTrackId cand)) = Accepted ext)"
    and "statusPidCascade (emittedRow c ext tracks lfTracks cand) =
     (statusPidLambda (emittedRow c ext tracks lfTracks cand)
      \<and> (if usePidTpcOnly c then statusTpc (selectorPion ext) else statusTpcOrTof (selectorPion ext))
        (lfTracks (bachelorId cand)) = Accepted ext)"
    and "statusPidCharmBaryon (emittedRow c ext tracks lfTracks cand) =
     (statusPidCascade (emittedRow c ext tracks lfTracks cand)
      \<and> (if usePidTpcOnly c then statusTpc (selectorPion ext) else statusTpcOrTof (selectorPion ext))
        (tracks (bachelorFromCharmBaryonId cand)) = Accepted ext)"
  using assms by (auto simp: emittedRow_def pidStatus_def Let_def)

lemma emittedRow_quality:
  assumes "resultSelections (emittedRow c ext tracks lfTracks cand)" and "applyTrkSelLf c"
  shows "isSelectedTrackTpcQuality ext
           (if 0 < sint (signDecay cand) then lfTracks (posTrackId cand)
            else lfTracks (negTrackId cand))
           (nClustersTpcMin c) (nTpcCrossedRowsMin c)
           (tpcCrossedRowsOverFindableClustersRatioMin c) (tpcChi2PerClusterMax c)"
    and "isSelectedTrackTpcQuality ext
           (if 0 < sint (signDecay cand) then lfTracks (negTrackId cand)
            else lfTracks (posTrackId cand))
           (nClustersTpcMin c) (nTpcCrossedRowsMin c)
           (tpcCrossedRowsOverFindableClustersRatioMin c) (tpcChi2PerClusterMax c)"
  using assms unfolding emittedRow_resultSelections fst_topoSelections by blast+

text \<open>What the part of the loop body after the role assignment does with the two V0
  daughters, for the roles \<open>piLam\<close> (pion) and \<open>prLam\<close> (proton) that the sign of the decay gives them.\<close>

lemma processCandidate_roles:
  assumes "usePidTpcOnly c \<noteq> usePidTpcTofCombined c"
    and "piLam = (if 0 < sint (signDecay cand) then lfTracks (posTrackId cand)
               else lfTracks (negTrackId cand))"
    and "prLam = (if 0 < sint (signDecay cand) then lfTracks (negTrackId cand)
               else lfTracks (posTrackId cand))"
  shows "\<exists>s' row. processCandidate c ext tracks lfTracks cand s = Inr s'
      \<and> hfSelToXiPi s' = hfSelToXiPi s @ [row]
      \<and> statusPidLambda row =
          ((if usePidTpcOnly c then statusTpc (selectorProton ext)
            else statusTpcOrTof (selectorProton ext)) prLam = Accepted ext
           \<and> (if usePidTpcOnly c then statusTpc (selectorPion ext)
              else statusTpcOrTof (selectorPion ext)) piLam = Accepted ext)
      \<and> statusPidCascade row =
          (statusPidLambda row
           \<and> (if usePidTpcOnly c then statusTpc (selectorPion ext)
              else statusTpcOrTof (selectorPion ext)) (lfTracks (bachelorId cand)) = Accepted ext)
      \<and> statusPidCharmBaryon row =
          (statusPidCascade row
           \<and> (if usePidTpcOnly c then statusTpc (selectorPion ext)
              else statusTpcOrTof (selectorPion ext)) (tracks (bachelorFromCharmBaryonId cand))
               = Accepted ext)
      \<and> infoTpcStored row =
          (if hasTPC piLam then 1 else 0) + (if hasTPC prLam then 2 else 0)
          + (if hasTPC (lfTracks (bachelorId cand)) then 4 else 0)
          + (if hasTPC (tracks (bachelorFromCharmBaryonId cand)) then 8 else 0)
      \<and> infoTofStored row =
          (if hasTOF piLam then 1 else 0) + (if hasTOF prLam then 2 else 0)
          + (if hasTOF (lfTracks (bachelorId cand)) then 4 else 0)
          + (if hasTOF (tracks (bachelorFromCharmBaryonId cand)) then 8 else 0)
      \<and> tpcNSigmaPiFromLambda row = tpcNSigmaPi piLam
      \<and> tofNSigmaPiFromLambda row = tofNSigmaPi piLam
      \<and> tpcNSigmaPrFromLambda row = tpcNSigmaPr prLam
      \<and> tofNSigmaPrFromLambda row = tofNSigmaPr prLam
      \<and> (applyTrkSelLf c \<longrightarrow>
           (resultSelections row \<longrightarrow>
              isSelectedTrackTpcQuality ext piLam (nClustersTpcMin c) (nTpcCrossedRowsMin c)
                (tpcCrossedRowsOverFindableClustersRatioMin c) (tpcChi2PerClusterMax c)
              \<and> isSelectedTrackTpcQuality ext prLam (nClustersTpcMin c) (nTpcCrossedRowsMin c)
                (tpcCrossedRowsOverFindableClustersRatioMin c) (tpcChi2PerClusterMax c))
           \<and> tally (registry s') ''hSelTPCQualityPiFromLam''
               (if isSelectedTrackTpcQuality ext piLam (nClustersTpcMin c) (nTpcCrossedRowsMin c)
                  (tpcCrossedRowsOverFindableClustersRatioMin c) (tpcChi2PerClusterMax c)
                then 1 else 0)
             = Suc (tally (registry s) ''hSelTPCQualityPiFromLam''
               (if isSelectedTrackTpcQuality ext piLam (nClustersTpcMin c) (nTpcCrossedRowsMin c)
                  (tpcCrossedRowsOverFindableClustersRatioMin c) (tpcChi2PerClusterMax c)
                then 1 else 0))
           \<and> tally (registry s') ''hSelTPCQualityPrFromLam''
               (if isSelectedTrackTpcQuality ext prLam (nClustersTpcMin c) (nTpcCrossedRowsMin c)
                  (tpcCrossedRowsOverFindableClustersRatioMin c) (tpcChi2PerClusterMax c)
                then 1 else 0)
             = Suc (tally (registry s) ''hSelTPCQualityPrFromLam''
               (if isSelectedTrackTpcQuality ext prLam (nClustersTpcMin c) (nTpcCrossedRowsMin c)
                  (tpcCrossedRowsOverFindableClustersRatioMin c) (tpcChi2PerClusterMax c)
                then 1 else 0)))"
proof -
  let ?row = "emittedRow c ext tracks lfTracks cand"
  from processCandidate_row [OF assms(1), of ext tracks lfTracks cand s] obtain s'
    where p: "processCandidate c ext tracks lfTracks cand s = Inr s'"
      and r: "hfSelToXiPi s' = hfSelToXiPi s @ [?row]"
    by blast
  note pid = emittedRow_pid_verdicts [OF assms(1), of ext tracks lfTracks cand,
      folded assms(2,3)]
  note info = emittedRow_info [of c ext tracks lfTracks cand, folded assms(2,3),
      unfolded storedInfoTpc_bits storedInfoTof_bits]
  note sig = emittedRow_sigmas(1-4) [of c ext tracks lfTracks cand, folded assms(2,3)]
  have qt: "applyTrkSelLf c \<longrightarrow>
           (resultSelections ?row \<longrightarrow>
              isSelectedTrackTpcQuality ext piLam (nClustersTpcMin c) (nTpcCrossedRowsMin c)
                (tpcCrossedRowsOverFindableClustersRatioMin c) (tpcChi2PerClusterMax c)
              \<and> isSelectedTrackTpcQuality ext prLam (nClustersTpcMin c) (nTpcCrossedRowsMin c)
                (tpcCrossedRowsOverFindableClustersRatioMin c) (tpcChi2PerClusterMax c))
           \<and> tally (registry s') ''hSelTPCQualityPiFromLam''
               (if isSelectedTrackTpcQuality ext piLam (nClustersTpcMin c) (nTpcCrossedRowsMin c)
                  (tpcCrossedRowsOverFindableClustersRatioMin c) (tpcChi2PerClusterMax c)
                then 1 else 0)
             = Suc (tally (registry s) ''hSelTPCQualityPiFromLam''
               (if isSelectedTrackTpcQuality ext piLam (nClustersTpcMin c) (nTpcCrossedRowsMin c)
                  (tpcCrossedRowsOverFindableClustersRatioMin c) (tpcChi2PerClusterMax c)
                then 1 else 0))
           \<and> tally (registry s') ''hSelTPCQualityPrFromLam''
               (if isSelectedTrackTpcQuality ext prLam (nClustersTpcMin c) (nTpcCrossedRowsMin c)
                  (tpcCrossedRowsOverFindableClustersRatioMin c) (tpcChi2PerClusterMax c)
                then 1 else 0)
             = Suc (tally (registry s) ''hSelTPCQualityPrFromLam''
               (if isSelectedTrackTpcQuality ext prLam (nClustersTpcMin c) (nTpcCrossedRowsMin c)
                  (tpcCrossedRowsOverFindableClustersRatioMin c) (tpcChi2PerClusterMax c)
                then 1 else 0))"
  proof
    assume lf: "applyTrkSelLf c"
    from emittedRow_quality [OF _ lf, of ext tracks lfTracks cand, folded assms(2,3)]
      processCandidate_tally_TPCQualityLam [OF p lf, folded assms(2,3)]
    show "(resultSelections ?row \<longrightarrow>
              isSelectedTrackTpcQuality ext piLam (nClustersTpcMin c) (nTpcCrossedRowsMin c)
                (tpcCrossedRowsOverFindableClustersRatioMin c) (tpcChi2PerClusterMax c)
              \<and> isSelectedTrackTpcQuality ext prLam (nClustersTpcMin c) (nTpcCrossedRowsMin c)
                (tpcCrossedRowsOverFindableClustersRatioMin c) (tpcChi2PerClusterMax c))
           \<and> tally (registry s') ''hSelTPCQualityPiFromLam''
               (if isSelectedTrackTpcQuality ext piLam (nClustersTpcMin c) (nTpcCrossedRowsMin c)
                  (tpcCrossedRowsOverFindableClustersRatioMin c) (tpcChi2PerClusterMax c)
                then 1 else 0)
             = Suc (tally (registry s) ''hSelTPCQualityPiFromLam''
               (if isSelectedTrackTpcQuality ext piLam (nClustersTpcMin c) (nTpcCrossedRowsMin c)
                  (tpcCrossedRowsOverFindableClustersRatioMin c) (tpcChi2PerClusterMax c)
                then 1 else 0))
           \<and> tally (registry s') ''hSelTPCQualityPrFromLam''
               (if isSelectedTrackTpcQuality ext prLam (nClustersTpcMin c) (nTpcCrossedRowsMin c)
                  (tpcCrossedRowsOverFindableClustersRatioMin c) (tpcChi2PerClusterMax c)
                then 1 else 0)
             = Suc (tally (registry s) ''hSelTPCQualityPrFromLam''
               (if isSelectedTrackTpcQuality ext prLam (nClustersTpcMin c) (nTpcCrossedRowsMin c)
                  (tpcCrossedRowsOverFindableClustersRatioMin c) (tpcChi2PerClusterMax c)
                then 1 else 0))"
      by simp
  qed
  show ?thesis
    by (intro exI [of _ s'] exI [of _ ?row] conjI) (rule p r pid info sig qt)+
qed

text \<open>
  C4. The sign of the decay decides the roles of the two V0 daughters. If the sign is
  positive, the loop body is the selection run with the positive daughter as the pion
  from the Lambda and the negative daughter as the proton. With a valid PID configuration
  the appended row then shows it in every check on these two tracks: the Lambda PID flag
  is the verdict of the proton selector on the negative daughter and of the pion selector
  on the positive daughter (the cascade and charm-baryon flags add the verdicts on the
  two bachelors), bit 0 of the two masks and the pion scores come from the positive
  daughter, bit 1 and the proton scores from the negative daughter, and under
  \<open>applyTrkSelLf\<close> the TPC quality of the positive daughter is tallied in
  \<open>hSelTPCQualityPiFromLam\<close>, that of the negative daughter in
  \<open>hSelTPCQualityPrFromLam\<close>, and both are needed for \<open>resultSelections\<close>. If the sign
  is negative, the two daughters change places in all of this.
\<close>

theorem roles_follow_decay_sign:
  "(0 < sint (signDecay cand) \<longrightarrow>
      processCandidate c ext tracks lfTracks cand s =
        selectCandidate c ext cand (lfTracks (posTrackId cand)) (lfTracks (negTrackId cand))
          (lfTracks (bachelorId cand)) (tracks (bachelorFromCharmBaryonId cand))
          (s\<lparr>registry := fill (registry s) ''hSelSignDec'' 1\<rparr>)
      \<and> (usePidTpcOnly c \<noteq> usePidTpcTofCombined c \<longrightarrow>
           (\<exists>s' row. processCandidate c ext tracks lfTracks cand s = Inr s'
              \<and> hfSelToXiPi s' = hfSelToXiPi s @ [row]
              \<and> statusPidLambda row =
                  ((if usePidTpcOnly c then statusTpc (selectorProton ext)
                else statusTpcOrTof (selectorProton ext)) (lfTracks (negTrackId cand)) = Accepted ext
                   \<and> (if usePidTpcOnly c then statusTpc (selectorPion ext)
                else statusTpcOrTof (selectorPion ext)) (lfTracks (posTrackId cand)) = Accepted ext)
              \<and> statusPidCascade row =
                  (statusPidLambda row
                   \<and> (if usePidTpcOnly c then statusTpc (selectorPion ext)
                else statusTpcOrTof (selectorPion ext)) (lfTracks (bachelorId cand)) = Accepted ext)
              \<and> statusPidCharmBaryon row =
                  (statusPidCascade row
                   \<and> (if usePidTpcOnly c then statusTpc (selectorPion ext)
                else statusTpcOrTof (selectorPion ext)) (tracks (bachelorFromCharmBaryonId cand)) = Accepted ext)
              \<and> infoTpcStored row =
                  (if hasTPC (lfTracks (posTrackId cand)) then 1 else 0)
                  + (if hasTPC (lfTracks (negTrackId cand)) then 2 else 0)
                  + (if hasTPC (lfTracks (bachelorId cand)) then 4 else 0)
                  + (if hasTPC (tracks (bachelorFromCharmBaryonId cand)) then 8 else 0)
              \<and> infoTofStored row =
                  (if hasTOF (lfTracks (posTrackId cand)) then 1 else 0)
                  + (if hasTOF (lfTracks (negTrackId cand)) then 2 else 0)
                  + (if hasTOF (lfTracks (bachelorId cand)) then 4 else 0)
                  + (if hasTOF (tracks (bachelorFromCharmBaryonId cand)) then 8 else 0)
              \<and> tpcNSigmaPiFromLambda row = tpcNSigmaPi (lfTracks (posTrackId cand))
              \<and> tofNSigmaPiFromLambda row = tofNSigmaPi (lfTracks (posTrackId cand))
              \<and> tpcNSigmaPrFromLambda row = tpcNSigmaPr (lfTracks (negTrackId cand))
              \<and> tofNSigmaPrFromLambda row = tofNSigmaPr (lfTracks (negTrackId cand))
              \<and> (applyTrkSelLf c \<longrightarrow>
                   (resultSelections row \<longrightarrow>
                      isSelectedTrackTpcQuality ext (lfTracks (posTrackId cand)) (nClustersTpcMin c)
                    (nTpcCrossedRowsMin c) (tpcCrossedRowsOverFindableClustersRatioMin c)
                    (tpcChi2PerClusterMax c)
                      \<and> isSelectedTrackTpcQuality ext (lfTracks (negTrackId cand)) (nClustersTpcMin c)
                    (nTpcCrossedRowsMin c) (tpcCrossedRowsOverFindableClustersRatioMin c)
                    (tpcChi2PerClusterMax c))
                   \<and> tally (registry s') ''hSelTPCQualityPiFromLam''
                       (if isSelectedTrackTpcQuality ext (lfTracks (posTrackId cand)) (nClustersTpcMin c)
                    (nTpcCrossedRowsMin c) (tpcCrossedRowsOverFindableClustersRatioMin c)
                    (tpcChi2PerClusterMax c)
                        then 1 else 0)
                     = Suc (tally (registry s) ''hSelTPCQualityPiFromLam''
                       (if isSelectedTrackTpcQuality ext (lfTracks (posTrackId cand)) (nClustersTpcMin c)
                    (nTpcCrossedRowsMin c) (tpcCrossedRowsOverFindableClustersRatioMin c)
                    (tpcChi2PerClusterMax c)
                        then 1 else 0))
                   \<and> tally (registry s') ''hSelTPCQualityPrFromLam''
                       (if isSelectedTrackTpcQuality ext (lfTracks (negTrackId cand)) (nClustersTpcMin c)
                    (nTpcCrossedRowsMin c) (tpcCrossedRowsOverFindableClustersRatioMin c)
                    (tpcChi2PerClusterMax c)
                        then 1 else 0)
                     = Suc (tally (registry s) ''hSelTPCQualityPrFromLam''
                       (if isSelectedTrackTpcQuality ext (lfTracks (negTrackId cand)) (nClustersTpcMin c)
                    (nTpcCrossedRowsMin c) (tpcCrossedRowsOverFindableClustersRatioMin c)
                    (tpcChi2PerClusterMax c)
                        then 1 else 0))))))
   \<and> (sint (signDecay cand) < 0 \<longrightarrow>
      processCandidate c ext tracks lfTracks cand s =
        selectCandidate c ext cand (lfTracks (negTrackId cand)) (lfTracks (posTrackId cand))
          (lfTracks (bachelorId cand)) (tracks (bachelorFromCharmBaryonId cand))
          (s\<lparr>registry := fill (registry s) ''hSelSignDec'' 0\<rparr>)
      \<and> (usePidTpcOnly c \<noteq> usePidTpcTofCombined c \<longrightarrow>
           (\<exists>s' row. processCandidate c ext tracks lfTracks cand s = Inr s'
              \<and> hfSelToXiPi s' = hfSelToXiPi s @ [row]
              \<and> statusPidLambda row =
                  ((if usePidTpcOnly c then statusTpc (selectorProton ext)
                else statusTpcOrTof (selectorProton ext)) (lfTracks (posTrackId cand)) = Accepted ext
                   \<and> (if usePidTpcOnly c then statusTpc (selectorPion ext)
                else statusTpcOrTof (selectorPion ext)) (lfTracks (negTrackId cand)) = Accepted ext)
              \<and> statusPidCascade row =
                  (statusPidLambda row
                   \<and> (if usePidTpcOnly c then statusTpc (selectorPion ext)
                else statusTpcOrTof (selectorPion ext)) (lfTracks (bachelorId cand)) = Accepted ext)
              \<and> statusPidCharmBaryon row =
                  (statusPidCascade row
                   \<and> (if usePidTpcOnly c then statusTpc (selectorPion ext)
                else statusTpcOrTof (selectorPion ext)) (tracks (bachelorFromCharmBaryonId cand)) = Accepted ext)
              \<and> infoTpcStored row =
                  (if hasTPC (lfTracks (negTrackId cand)) then 1 else 0)
                  + (if hasTPC (lfTracks (posTrackId cand)) then 2 else 0)
                  + (if hasTPC (lfTracks (bachelorId cand)) then 4 else 0)
                  + (if hasTPC (tracks (bachelorFromCharmBaryonId cand)) then 8 else 0)
              \<and> infoTofStored row =
                  (if hasTOF (lfTracks (negTrackId cand)) then 1 else 0)
                  + (if hasTOF (lfTracks (posTrackId cand)) then 2 else 0)
                  + (if hasTOF (lfTracks (bachelorId cand)) then 4 else 0)
                  + (if hasTOF (tracks (bachelorFromCharmBaryonId cand)) then 8 else 0)
              \<and> tpcNSigmaPiFromLambda row = tpcNSigmaPi (lfTracks (negTrackId cand))
              \<and> tofNSigmaPiFromLambda row = tofNSigmaPi (lfTracks (negTrackId cand))
              \<and> tpcNSigmaPrFromLambda row = tpcNSigmaPr (lfTracks (posTrackId cand))
              \<and> tofNSigmaPrFromLambda row = tofNSigmaPr (lfTracks (posTrackId cand))
              \<and> (applyTrkSelLf c \<longrightarrow>
                   (resultSelections row \<longrightarrow>
                      isSelectedTrackTpcQuality ext (lfTracks (negTrackId cand)) (nClustersTpcMin c)
                    (nTpcCrossedRowsMin c) (tpcCrossedRowsOverFindableClustersRatioMin c)
                    (tpcChi2PerClusterMax c)
                      \<and> isSelectedTrackTpcQuality ext (lfTracks (posTrackId cand)) (nClustersTpcMin c)
                    (nTpcCrossedRowsMin c) (tpcCrossedRowsOverFindableClustersRatioMin c)
                    (tpcChi2PerClusterMax c))
                   \<and> tally (registry s') ''hSelTPCQualityPiFromLam''
                       (if isSelectedTrackTpcQuality ext (lfTracks (negTrackId cand)) (nClustersTpcMin c)
                    (nTpcCrossedRowsMin c) (tpcCrossedRowsOverFindableClustersRatioMin c)
                    (tpcChi2PerClusterMax c)
                        then 1 else 0)
                     = Suc (tally (registry s) ''hSelTPCQualityPiFromLam''
                       (if isSelectedTrackTpcQuality ext (lfTracks (negTrackId cand)) (nClustersTpcMin c)
                    (nTpcCrossedRowsMin c) (tpcCrossedRowsOverFindableClustersRatioMin c)
                    (tpcChi2PerClusterMax c)
                        then 1 else 0))
                   \<and> tally (registry s') ''hSelTPCQualityPrFromLam''
                       (if isSelectedTrackTpcQuality ext (lfTracks (posTrackId cand)) (nClustersTpcMin c)
                    (nTpcCrossedRowsMin c) (tpcCrossedRowsOverFindableClustersRatioMin c)
                    (tpcChi2PerClusterMax c)
                        then 1 else 0)
                     = Suc (tally (registry s) ''hSelTPCQualityPrFromLam''
                       (if isSelectedTrackTpcQuality ext (lfTracks (posTrackId cand)) (nClustersTpcMin c)
                    (nTpcCrossedRowsMin c) (tpcCrossedRowsOverFindableClustersRatioMin c)
                    (tpcChi2PerClusterMax c)
                        then 1 else 0))))))"
proof (intro conjI impI)
  assume "0 < sint (signDecay cand)"
  then show "processCandidate c ext tracks lfTracks cand s =
        selectCandidate c ext cand (lfTracks (posTrackId cand)) (lfTracks (negTrackId cand))
          (lfTracks (bachelorId cand)) (tracks (bachelorFromCharmBaryonId cand))
          (s\<lparr>registry := fill (registry s) ''hSelSignDec'' 1\<rparr>)"
    by (simp add: processCandidate_eq snd_trackRoles)
next
  assume p: "0 < sint (signDecay cand)" and v: "usePidTpcOnly c \<noteq> usePidTpcTofCombined c"
  show "\<exists>s' row. processCandidate c ext tracks lfTracks cand s = Inr s'
              \<and> hfSelToXiPi s' = hfSelToXiPi s @ [row]
              \<and> statusPidLambda row =
                  ((if usePidTpcOnly c then statusTpc (selectorProton ext)
                else statusTpcOrTof (selectorProton ext)) (lfTracks (negTrackId cand)) = Accepted ext
                   \<and> (if usePidTpcOnly c then statusTpc (selectorPion ext)
                else statusTpcOrTof (selectorPion ext)) (lfTracks (posTrackId cand)) = Accepted ext)
              \<and> statusPidCascade row =
                  (statusPidLambda row
                   \<and> (if usePidTpcOnly c then statusTpc (selectorPion ext)
                else statusTpcOrTof (selectorPion ext)) (lfTracks (bachelorId cand)) = Accepted ext)
              \<and> statusPidCharmBaryon row =
                  (statusPidCascade row
                   \<and> (if usePidTpcOnly c then statusTpc (selectorPion ext)
                else statusTpcOrTof (selectorPion ext)) (tracks (bachelorFromCharmBaryonId cand)) = Accepted ext)
              \<and> infoTpcStored row =
                  (if hasTPC (lfTracks (posTrackId cand)) then 1 else 0)
                  + (if hasTPC (lfTracks (negTrackId cand)) then 2 else 0)
                  + (if hasTPC (lfTracks (bachelorId cand)) then 4 else 0)
                  + (if hasTPC (tracks (bachelorFromCharmBaryonId cand)) then 8 else 0)
              \<and> infoTofStored row =
                  (if hasTOF (lfTracks (posTrackId cand)) then 1 else 0)
                  + (if hasTOF (lfTracks (negTrackId cand)) then 2 else 0)
                  + (if hasTOF (lfTracks (bachelorId cand)) then 4 else 0)
                  + (if hasTOF (tracks (bachelorFromCharmBaryonId cand)) then 8 else 0)
              \<and> tpcNSigmaPiFromLambda row = tpcNSigmaPi (lfTracks (posTrackId cand))
              \<and> tofNSigmaPiFromLambda row = tofNSigmaPi (lfTracks (posTrackId cand))
              \<and> tpcNSigmaPrFromLambda row = tpcNSigmaPr (lfTracks (negTrackId cand))
              \<and> tofNSigmaPrFromLambda row = tofNSigmaPr (lfTracks (negTrackId cand))
              \<and> (applyTrkSelLf c \<longrightarrow>
                   (resultSelections row \<longrightarrow>
                      isSelectedTrackTpcQuality ext (lfTracks (posTrackId cand)) (nClustersTpcMin c)
                    (nTpcCrossedRowsMin c) (tpcCrossedRowsOverFindableClustersRatioMin c)
                    (tpcChi2PerClusterMax c)
                      \<and> isSelectedTrackTpcQuality ext (lfTracks (negTrackId cand)) (nClustersTpcMin c)
                    (nTpcCrossedRowsMin c) (tpcCrossedRowsOverFindableClustersRatioMin c)
                    (tpcChi2PerClusterMax c))
                   \<and> tally (registry s') ''hSelTPCQualityPiFromLam''
                       (if isSelectedTrackTpcQuality ext (lfTracks (posTrackId cand)) (nClustersTpcMin c)
                    (nTpcCrossedRowsMin c) (tpcCrossedRowsOverFindableClustersRatioMin c)
                    (tpcChi2PerClusterMax c)
                        then 1 else 0)
                     = Suc (tally (registry s) ''hSelTPCQualityPiFromLam''
                       (if isSelectedTrackTpcQuality ext (lfTracks (posTrackId cand)) (nClustersTpcMin c)
                    (nTpcCrossedRowsMin c) (tpcCrossedRowsOverFindableClustersRatioMin c)
                    (tpcChi2PerClusterMax c)
                        then 1 else 0))
                   \<and> tally (registry s') ''hSelTPCQualityPrFromLam''
                       (if isSelectedTrackTpcQuality ext (lfTracks (negTrackId cand)) (nClustersTpcMin c)
                    (nTpcCrossedRowsMin c) (tpcCrossedRowsOverFindableClustersRatioMin c)
                    (tpcChi2PerClusterMax c)
                        then 1 else 0)
                     = Suc (tally (registry s) ''hSelTPCQualityPrFromLam''
                       (if isSelectedTrackTpcQuality ext (lfTracks (negTrackId cand)) (nClustersTpcMin c)
                    (nTpcCrossedRowsMin c) (tpcCrossedRowsOverFindableClustersRatioMin c)
                    (tpcChi2PerClusterMax c)
                        then 1 else 0)))"
    by (rule processCandidate_roles [OF v]) (simp_all add: p)
next
  assume "sint (signDecay cand) < 0"
  then show "processCandidate c ext tracks lfTracks cand s =
        selectCandidate c ext cand (lfTracks (negTrackId cand)) (lfTracks (posTrackId cand))
          (lfTracks (bachelorId cand)) (tracks (bachelorFromCharmBaryonId cand))
          (s\<lparr>registry := fill (registry s) ''hSelSignDec'' 0\<rparr>)"
    by (simp add: processCandidate_eq snd_trackRoles)
next
  assume n: "sint (signDecay cand) < 0" and v: "usePidTpcOnly c \<noteq> usePidTpcTofCombined c"
  show "\<exists>s' row. processCandidate c ext tracks lfTracks cand s = Inr s'
              \<and> hfSelToXiPi s' = hfSelToXiPi s @ [row]
              \<and> statusPidLambda row =
                  ((if usePidTpcOnly c then statusTpc (selectorProton ext)
                else statusTpcOrTof (selectorProton ext)) (lfTracks (posTrackId cand)) = Accepted ext
                   \<and> (if usePidTpcOnly c then statusTpc (selectorPion ext)
                else statusTpcOrTof (selectorPion ext)) (lfTracks (negTrackId cand)) = Accepted ext)
              \<and> statusPidCascade row =
                  (statusPidLambda row
                   \<and> (if usePidTpcOnly c then statusTpc (selectorPion ext)
                else statusTpcOrTof (selectorPion ext)) (lfTracks (bachelorId cand)) = Accepted ext)
              \<and> statusPidCharmBaryon row =
                  (statusPidCascade row
                   \<and> (if usePidTpcOnly c then statusTpc (selectorPion ext)
                else statusTpcOrTof (selectorPion ext)) (tracks (bachelorFromCharmBaryonId cand)) = Accepted ext)
              \<and> infoTpcStored row =
                  (if hasTPC (lfTracks (negTrackId cand)) then 1 else 0)
                  + (if hasTPC (lfTracks (posTrackId cand)) then 2 else 0)
                  + (if hasTPC (lfTracks (bachelorId cand)) then 4 else 0)
                  + (if hasTPC (tracks (bachelorFromCharmBaryonId cand)) then 8 else 0)
              \<and> infoTofStored row =
                  (if hasTOF (lfTracks (negTrackId cand)) then 1 else 0)
                  + (if hasTOF (lfTracks (posTrackId cand)) then 2 else 0)
                  + (if hasTOF (lfTracks (bachelorId cand)) then 4 else 0)
                  + (if hasTOF (tracks (bachelorFromCharmBaryonId cand)) then 8 else 0)
              \<and> tpcNSigmaPiFromLambda row = tpcNSigmaPi (lfTracks (negTrackId cand))
              \<and> tofNSigmaPiFromLambda row = tofNSigmaPi (lfTracks (negTrackId cand))
              \<and> tpcNSigmaPrFromLambda row = tpcNSigmaPr (lfTracks (posTrackId cand))
              \<and> tofNSigmaPrFromLambda row = tofNSigmaPr (lfTracks (posTrackId cand))
              \<and> (applyTrkSelLf c \<longrightarrow>
                   (resultSelections row \<longrightarrow>
                      isSelectedTrackTpcQuality ext (lfTracks (negTrackId cand)) (nClustersTpcMin c)
                    (nTpcCrossedRowsMin c) (tpcCrossedRowsOverFindableClustersRatioMin c)
                    (tpcChi2PerClusterMax c)
                      \<and> isSelectedTrackTpcQuality ext (lfTracks (posTrackId cand)) (nClustersTpcMin c)
                    (nTpcCrossedRowsMin c) (tpcCrossedRowsOverFindableClustersRatioMin c)
                    (tpcChi2PerClusterMax c))
                   \<and> tally (registry s') ''hSelTPCQualityPiFromLam''
                       (if isSelectedTrackTpcQuality ext (lfTracks (negTrackId cand)) (nClustersTpcMin c)
                    (nTpcCrossedRowsMin c) (tpcCrossedRowsOverFindableClustersRatioMin c)
                    (tpcChi2PerClusterMax c)
                        then 1 else 0)
                     = Suc (tally (registry s) ''hSelTPCQualityPiFromLam''
                       (if isSelectedTrackTpcQuality ext (lfTracks (negTrackId cand)) (nClustersTpcMin c)
                    (nTpcCrossedRowsMin c) (tpcCrossedRowsOverFindableClustersRatioMin c)
                    (tpcChi2PerClusterMax c)
                        then 1 else 0))
                   \<and> tally (registry s') ''hSelTPCQualityPrFromLam''
                       (if isSelectedTrackTpcQuality ext (lfTracks (posTrackId cand)) (nClustersTpcMin c)
                    (nTpcCrossedRowsMin c) (tpcCrossedRowsOverFindableClustersRatioMin c)
                    (tpcChi2PerClusterMax c)
                        then 1 else 0)
                     = Suc (tally (registry s) ''hSelTPCQualityPrFromLam''
                       (if isSelectedTrackTpcQuality ext (lfTracks (posTrackId cand)) (nClustersTpcMin c)
                    (nTpcCrossedRowsMin c) (tpcCrossedRowsOverFindableClustersRatioMin c)
                    (tpcChi2PerClusterMax c)
                        then 1 else 0)))"
    by (rule processCandidate_roles [OF v]) (use n in simp_all)
qed

lemma example_ids:
  "posTrackId exampleCandidate = 0" "negTrackId exampleCandidate = 1"
  "bachelorId exampleCandidate = 2" "signDecay exampleCandidate = 1"
  by (simp_all add: exampleCandidate_def)

lemma example_sigmas:
  "tpcNSigmaPi pionTrack = 0.5" "tpcNSigmaPr pionTrack = 6"
  "tpcNSigmaPi protonTrack = 8" "tpcNSigmaPr protonTrack = 0.25"
  by (simp_all add: pionTrack_def protonTrack_def)

theorem roles_follow_decay_sign_witness:
  "0 < sint (signDecay exampleCandidate)
   \<and> usePidTpcOnly cfgDefault \<noteq> usePidTpcTofCombined cfgDefault
   \<and> applyTrkSelLf cfgDefault
   \<and> processCandidate cfgDefault exampleExternals exampleTracks exampleLfTracks
        exampleCandidate emptyState =
      selectCandidate cfgDefault exampleExternals exampleCandidate pionTrack protonTrack
        bachelorTrack charmBachelorTrack
        (emptyState\<lparr>registry := fill (registry emptyState) ''hSelSignDec'' 1\<rparr>)
   \<and> (\<exists>s' row. processCandidate cfgDefault exampleExternals exampleTracks exampleLfTracks
          exampleCandidate emptyState = Inr s'
        \<and> hfSelToXiPi s' = [row]
        \<and> statusPidLambda row \<and> statusPidCascade row \<and> statusPidCharmBaryon row
        \<and> infoTpcStored row = 15 \<and> infoTofStored row = 7
        \<and> tpcNSigmaPiFromLambda row = 0.5 \<and> tpcNSigmaPrFromLambda row = 0.25
        \<and> tally (registry s') ''hSelTPCQualityPiFromLam'' 1 = 1
        \<and> tally (registry s') ''hSelTPCQualityPrFromLam'' 1 = 1)
   \<and> sint (signDecay (exampleCandidate\<lparr>signDecay := - 1\<rparr>)) < 0
   \<and> processCandidate cfgDefault exampleExternals exampleTracks exampleLfTracks
        (exampleCandidate\<lparr>signDecay := - 1\<rparr>) emptyState =
      selectCandidate cfgDefault exampleExternals (exampleCandidate\<lparr>signDecay := - 1\<rparr>)
        protonTrack pionTrack bachelorTrack charmBachelorTrack
        (emptyState\<lparr>registry := fill (registry emptyState) ''hSelSignDec'' 0\<rparr>)
   \<and> (\<exists>s' row. processCandidate cfgDefault exampleExternals exampleTracks exampleLfTracks
          (exampleCandidate\<lparr>signDecay := - 1\<rparr>) emptyState = Inr s'
        \<and> hfSelToXiPi s' = [row]
        \<and> \<not> statusPidLambda row \<and> \<not> statusPidCascade row \<and> \<not> statusPidCharmBaryon row
        \<and> infoTpcStored row = 15 \<and> infoTofStored row = 7
        \<and> tpcNSigmaPiFromLambda row = 8 \<and> tpcNSigmaPrFromLambda row = 6
        \<and> tally (registry s') ''hSelTPCQualityPiFromLam'' 1 = 1
        \<and> tally (registry s') ''hSelTPCQualityPrFromLam'' 1 = 1)"
proof -
  let ?neg = "exampleCandidate\<lparr>signDecay := - 1\<rparr>"
  have v: "usePidTpcOnly cfgDefault \<noteq> usePidTpcTofCombined cfgDefault"
    by (simp add: cfgDefault_def)
  have lf: "applyTrkSelLf cfgDefault"
    by (simp add: cfgDefault_def)
  have e: "hfSelToXiPi emptyState = []" "tally (registry emptyState) h x = 0" for h x
    by (simp_all add: emptyState_def tally_def)
  have cf: "\<not> usePidTpcOnly cfgDefault" "nClustersTpcMin cfgDefault = 70"
    "nTpcCrossedRowsMin cfgDefault = 70"
    "tpcCrossedRowsOverFindableClustersRatioMin cfgDefault = 0.8"
    "tpcChi2PerClusterMax cfgDefault = 4"
    by (simp_all add: cfgDefault_def)
  have pos: "0 < sint (signDecay exampleCandidate)"
    by (simp add: example_ids)
  have neg: "sint (signDecay ?neg) < 0"
    by simp
  note P = roles_follow_decay_sign [of exampleCandidate cfgDefault exampleExternals
      exampleTracks exampleLfTracks emptyState, THEN conjunct1, rule_format, OF pos]
  note N = roles_follow_decay_sign [of ?neg cfgDefault exampleExternals
      exampleTracks exampleLfTracks emptyState, THEN conjunct2, rule_format, OF neg]
  have p1: "processCandidate cfgDefault exampleExternals exampleTracks exampleLfTracks
        exampleCandidate emptyState =
      selectCandidate cfgDefault exampleExternals exampleCandidate pionTrack protonTrack
        bachelorTrack charmBachelorTrack
        (emptyState\<lparr>registry := fill (registry emptyState) ''hSelSignDec'' 1\<rparr>)"
    using P [THEN conjunct1] by (simp only: example_ids example_lookups)
  have n1: "processCandidate cfgDefault exampleExternals exampleTracks exampleLfTracks
        ?neg emptyState =
      selectCandidate cfgDefault exampleExternals ?neg protonTrack pionTrack
        bachelorTrack charmBachelorTrack
        (emptyState\<lparr>registry := fill (registry emptyState) ''hSelSignDec'' 0\<rparr>)"
    using N [THEN conjunct1] by (simp add: example_ids example_lookups)
  have w1: "\<exists>s' row. processCandidate cfgDefault exampleExternals exampleTracks
          exampleLfTracks exampleCandidate emptyState = Inr s'
        \<and> hfSelToXiPi s' = [row]
        \<and> statusPidLambda row \<and> statusPidCascade row \<and> statusPidCharmBaryon row
        \<and> infoTpcStored row = 15 \<and> infoTofStored row = 7
        \<and> tpcNSigmaPiFromLambda row = 0.5 \<and> tpcNSigmaPrFromLambda row = 0.25
        \<and> tally (registry s') ''hSelTPCQualityPiFromLam'' 1 = 1
        \<and> tally (registry s') ''hSelTPCQualityPrFromLam'' 1 = 1"
    using P [THEN conjunct2, rule_format, OF v]
    by (simp add: e lf cf example_ids example_lookups exampleExternals_simps pionTrack_def
          protonTrack_def bachelorTrack_def charmBachelorTrack_def; blast)
  have w2: "\<exists>s' row. processCandidate cfgDefault exampleExternals exampleTracks exampleLfTracks
          ?neg emptyState = Inr s'
        \<and> hfSelToXiPi s' = [row]
        \<and> \<not> statusPidLambda row \<and> \<not> statusPidCascade row \<and> \<not> statusPidCharmBaryon row
        \<and> infoTpcStored row = 15 \<and> infoTofStored row = 7
        \<and> tpcNSigmaPiFromLambda row = 8 \<and> tpcNSigmaPrFromLambda row = 6
        \<and> tally (registry s') ''hSelTPCQualityPiFromLam'' 1 = 1
        \<and> tally (registry s') ''hSelTPCQualityPrFromLam'' 1 = 1"
    using N [THEN conjunct2, rule_format, OF v]
    by (simp add: e lf cf example_ids example_lookups exampleExternals_simps pionTrack_def
          protonTrack_def bachelorTrack_def charmBachelorTrack_def; blast)
  from pos v lf p1 w1 neg n1 w2 show ?thesis by (intro conjI)
qed

text \<open>
  C9. If the sign of the decay is zero, the loop body is the selection run with the
  default roles: the negative V0 daughter as the pion, the positive one as the proton,
  and no fill of the sign histogram. With a valid PID configuration one row is appended;
  it carries the pion scores of the negative daughter and the proton scores of the
  positive one, it is the row that the same candidate with a negative sign gets, and
  the tallies of both bins of \<open>hSelSignDec\<close> are what they were.
\<close>

theorem zero_sign_uses_default_roles:
  assumes "sint (signDecay cand) = 0"
  shows "processCandidate c ext tracks lfTracks cand s =
        selectCandidate c ext cand (lfTracks (negTrackId cand)) (lfTracks (posTrackId cand))
          (lfTracks (bachelorId cand)) (tracks (bachelorFromCharmBaryonId cand)) s
    \<and> (usePidTpcOnly c \<noteq> usePidTpcTofCombined c \<longrightarrow>
         (\<exists>s' row. processCandidate c ext tracks lfTracks cand s = Inr s'
            \<and> hfSelToXiPi s' = hfSelToXiPi s @ [row]
            \<and> tpcNSigmaPiFromLambda row = tpcNSigmaPi (lfTracks (negTrackId cand))
            \<and> tofNSigmaPiFromLambda row = tofNSigmaPi (lfTracks (negTrackId cand))
            \<and> tpcNSigmaPrFromLambda row = tpcNSigmaPr (lfTracks (posTrackId cand))
            \<and> tofNSigmaPrFromLambda row = tofNSigmaPr (lfTracks (posTrackId cand))
            \<and> (\<forall>x. tally (registry s') ''hSelSignDec'' x = tally (registry s) ''hSelSignDec'' x)
            \<and> (\<forall>sg. sint sg < 0 \<longrightarrow>
                 (\<exists>s''. processCandidate c ext tracks lfTracks (cand\<lparr>signDecay := sg\<rparr>) s
                          = Inr s''
                    \<and> hfSelToXiPi s'' = hfSelToXiPi s @ [row]))))"
proof (intro conjI impI)
  show "processCandidate c ext tracks lfTracks cand s =
        selectCandidate c ext cand (lfTracks (negTrackId cand)) (lfTracks (posTrackId cand))
          (lfTracks (bachelorId cand)) (tracks (bachelorFromCharmBaryonId cand)) s"
    using assms by (simp add: processCandidate_eq snd_trackRoles)
next
  assume v: "usePidTpcOnly c \<noteq> usePidTpcTofCombined c"
  from processCandidate_row [OF v, of ext tracks lfTracks cand s] obtain s'
    where p: "processCandidate c ext tracks lfTracks cand s = Inr s'"
      and r: "hfSelToXiPi s' = hfSelToXiPi s @ [emittedRow c ext tracks lfTracks cand]"
    by blast
  have t: "\<forall>x. tally (registry s') ''hSelSignDec'' x = tally (registry s) ''hSelSignDec'' x"
    using assms by (simp add: processCandidate_tally_SignDec [OF p] snd_trackRoles)
  have same: "emittedRow c ext tracks lfTracks (cand\<lparr>signDecay := sg\<rparr>)
                = emittedRow c ext tracks lfTracks cand" if "sint sg < 0" for sg
    using that assms by (simp add: emittedRow_def topoSelections_def)
  have n: "\<forall>sg. sint sg < 0 \<longrightarrow>
             (\<exists>s''. processCandidate c ext tracks lfTracks (cand\<lparr>signDecay := sg\<rparr>) s = Inr s''
                \<and> hfSelToXiPi s'' = hfSelToXiPi s @ [emittedRow c ext tracks lfTracks cand])"
  proof (intro allI impI)
    fix sg :: "8 word"
    assume "sint sg < 0"
    from processCandidate_row [OF v, of ext tracks lfTracks "cand\<lparr>signDecay := sg\<rparr>" s]
      same [OF this]
    show "\<exists>s''. processCandidate c ext tracks lfTracks (cand\<lparr>signDecay := sg\<rparr>) s = Inr s''
                \<and> hfSelToXiPi s'' = hfSelToXiPi s @ [emittedRow c ext tracks lfTracks cand]"
      by simp
  qed
  show "\<exists>s' row. processCandidate c ext tracks lfTracks cand s = Inr s'
            \<and> hfSelToXiPi s' = hfSelToXiPi s @ [row]
            \<and> tpcNSigmaPiFromLambda row = tpcNSigmaPi (lfTracks (negTrackId cand))
            \<and> tofNSigmaPiFromLambda row = tofNSigmaPi (lfTracks (negTrackId cand))
            \<and> tpcNSigmaPrFromLambda row = tpcNSigmaPr (lfTracks (posTrackId cand))
            \<and> tofNSigmaPrFromLambda row = tofNSigmaPr (lfTracks (posTrackId cand))
            \<and> (\<forall>x. tally (registry s') ''hSelSignDec'' x = tally (registry s) ''hSelSignDec'' x)
            \<and> (\<forall>sg. sint sg < 0 \<longrightarrow>
                 (\<exists>s''. processCandidate c ext tracks lfTracks (cand\<lparr>signDecay := sg\<rparr>) s
                          = Inr s''
                    \<and> hfSelToXiPi s'' = hfSelToXiPi s @ [row]))"
    using p r t n assms
    by (intro exI [of _ s'] exI [of _ "emittedRow c ext tracks lfTracks cand"])
       (simp add: emittedRow_sigmas)
qed

theorem zero_sign_uses_default_roles_witness:
  "sint (signDecay (exampleCandidate\<lparr>signDecay := 0\<rparr>)) = 0
   \<and> usePidTpcOnly cfgDefault \<noteq> usePidTpcTofCombined cfgDefault
   \<and> processCandidate cfgDefault exampleExternals exampleTracks exampleLfTracks
        (exampleCandidate\<lparr>signDecay := 0\<rparr>) emptyState =
      selectCandidate cfgDefault exampleExternals (exampleCandidate\<lparr>signDecay := 0\<rparr>)
        protonTrack pionTrack bachelorTrack charmBachelorTrack emptyState
   \<and> (\<exists>s' row. processCandidate cfgDefault exampleExternals exampleTracks exampleLfTracks
          (exampleCandidate\<lparr>signDecay := 0\<rparr>) emptyState = Inr s'
        \<and> hfSelToXiPi s' = [row]
        \<and> tpcNSigmaPiFromLambda row = 8 \<and> tpcNSigmaPrFromLambda row = 6
        \<and> tally (registry s') ''hSelSignDec'' 0 = 0
        \<and> tally (registry s') ''hSelSignDec'' 1 = 0
        \<and> (\<exists>s''. processCandidate cfgDefault exampleExternals exampleTracks exampleLfTracks
               (exampleCandidate\<lparr>signDecay := - 1\<rparr>) emptyState = Inr s''
             \<and> hfSelToXiPi s'' = [row]))"
proof -
  let ?zero = "exampleCandidate\<lparr>signDecay := 0\<rparr>"
  have v: "usePidTpcOnly cfgDefault \<noteq> usePidTpcTofCombined cfgDefault"
    by (simp add: cfgDefault_def)
  have z: "sint (signDecay ?zero) = 0"
    by simp
  have e: "hfSelToXiPi emptyState = []" "tally (registry emptyState) h x = 0" for h x
    by (simp_all add: emptyState_def tally_def)
  have m: "sint (- 1 :: 8 word) < 0"
    by simp
  note Z = zero_sign_uses_default_roles [OF z, of cfgDefault exampleExternals exampleTracks
      exampleLfTracks emptyState]
  from Z have eq: "processCandidate cfgDefault exampleExternals exampleTracks
        exampleLfTracks ?zero emptyState =
      selectCandidate cfgDefault exampleExternals ?zero
        (exampleLfTracks (negTrackId ?zero)) (exampleLfTracks (posTrackId ?zero))
        (exampleLfTracks (bachelorId ?zero))
        (exampleTracks (bachelorFromCharmBaryonId ?zero)) emptyState"
    by blast
  from Z v obtain s' row
    where p: "processCandidate cfgDefault exampleExternals exampleTracks exampleLfTracks
                ?zero emptyState = Inr s'"
      and r: "hfSelToXiPi s' = hfSelToXiPi emptyState @ [row]"
        "tpcNSigmaPiFromLambda row = tpcNSigmaPi (exampleLfTracks (negTrackId ?zero))"
        "tpcNSigmaPrFromLambda row = tpcNSigmaPr (exampleLfTracks (posTrackId ?zero))"
      and t: "\<forall>x. tally (registry s') ''hSelSignDec'' x
                = tally (registry emptyState) ''hSelSignDec'' x"
      and n: "\<forall>sg. sint sg < 0 \<longrightarrow>
                 (\<exists>s''. processCandidate cfgDefault exampleExternals exampleTracks
                     exampleLfTracks (?zero\<lparr>signDecay := sg\<rparr>) emptyState = Inr s''
                    \<and> hfSelToXiPi s'' = hfSelToXiPi emptyState @ [row])"
    by blast
  have eq': "processCandidate cfgDefault exampleExternals exampleTracks exampleLfTracks
        ?zero emptyState =
      selectCandidate cfgDefault exampleExternals ?zero protonTrack pionTrack bachelorTrack
        charmBachelorTrack emptyState"
    using eq by (simp add: example_ids example_lookups)
  have r': "hfSelToXiPi s' = [row]" "tpcNSigmaPiFromLambda row = 8"
    "tpcNSigmaPrFromLambda row = 6"
    using r by (simp_all add: e example_ids example_lookups example_sigmas)
  have t': "tally (registry s') ''hSelSignDec'' 0 = 0" "tally (registry s') ''hSelSignDec'' 1 = 0"
    using t by (simp_all add: e)
  from n m have "\<exists>s''. processCandidate cfgDefault exampleExternals exampleTracks
        exampleLfTracks (?zero\<lparr>signDecay := - 1\<rparr>) emptyState = Inr s''
        \<and> hfSelToXiPi s'' = hfSelToXiPi emptyState @ [row]"
    by blast
  then have n': "\<exists>s''. processCandidate cfgDefault exampleExternals exampleTracks
        exampleLfTracks (exampleCandidate\<lparr>signDecay := - 1\<rparr>) emptyState = Inr s''
        \<and> hfSelToXiPi s'' = [row]"
    by (simp add: e)
  from p r' t' n' have "\<exists>s' row. processCandidate cfgDefault exampleExternals exampleTracks
          exampleLfTracks ?zero emptyState = Inr s'
        \<and> hfSelToXiPi s' = [row]
        \<and> tpcNSigmaPiFromLambda row = 8 \<and> tpcNSigmaPrFromLambda row = 6
        \<and> tally (registry s') ''hSelSignDec'' 0 = 0
        \<and> tally (registry s') ''hSelSignDec'' 1 = 0
        \<and> (\<exists>s''. processCandidate cfgDefault exampleExternals exampleTracks exampleLfTracks
               (exampleCandidate\<lparr>signDecay := - 1\<rparr>) emptyState = Inr s''
             \<and> hfSelToXiPi s'' = [row])"
    by blast
  with z v eq' show ?thesis by (intro conjI)
qed

subsection \<open>Independence of the PID and mass flags from the topological selections\<close>





subsection \<open>The loop over the candidates\<close>

lemma selectorProcess_rows:
  assumes "usePidTpcOnly c \<noteq> usePidTpcTofCombined c"
  shows "\<exists>s'. selectorProcess c ext tracks lfTracks cands s = Inr s'
          \<and> hfSelToXiPi s' = hfSelToXiPi s @ map (emittedRow c ext tracks lfTracks) cands"
proof (induction cands arbitrary: s)
  case Nil
  show ?case by simp
next
  case (Cons cand cands)
  from processCandidate_row [OF assms, of ext tracks lfTracks cand s] obtain s1
    where p: "processCandidate c ext tracks lfTracks cand s = Inr s1"
      and r: "hfSelToXiPi s1 = hfSelToXiPi s @ [emittedRow c ext tracks lfTracks cand]"
    by blast
  from Cons.IH [of s1] obtain s'
    where q: "selectorProcess c ext tracks lfTracks cands s1 = Inr s'"
      and t: "hfSelToXiPi s' = hfSelToXiPi s1 @ map (emittedRow c ext tracks lfTracks) cands"
    by blast
  show ?case
    using p r q t by simp
qed

lemma processCandidate_fatal:
  assumes "usePidTpcOnly c = usePidTpcTofCombined c"
  shows "processCandidate c ext tracks lfTracks cand s =
    Inl (Fatal ''Check the PID configurables, usePidTpcOnly and usePidTpcTofCombined can't have the same value''
      (s\<lparr>registry := snd (topoSelections c ext cand
          (if 0 < sint (signDecay cand) then lfTracks (posTrackId cand)
           else lfTracks (negTrackId cand))
          (if 0 < sint (signDecay cand) then lfTracks (negTrackId cand)
           else lfTracks (posTrackId cand))
          (lfTracks (bachelorId cand)) (tracks (bachelorFromCharmBaryonId cand))
          (snd (trackRoles (lfTracks (posTrackId cand)) (lfTracks (negTrackId cand))
                 (signDecay cand) (registry s))))\<rparr>))"
  unfolding processCandidate_eq selectCandidate_fatal [OF assms] by simp

lemma length_trackRoles:
  "length (snd (trackRoles a b sg reg)) = length reg + (if sint sg = 0 then 0 else 1)"
  by (simp add: snd_trackRoles fill_def)

lemma example_topo_registry:
  "snd (topoSelections (cfgDefault\<lparr>usePidTpcTofCombined := False\<rparr>) exampleExternals
     exampleCandidate pionTrack protonTrack bachelorTrack charmBachelorTrack reg) =
   reg @ [(''hSelEtaPosV0Dau'', 1), (''hSelEtaNegV0Dau'', 1), (''hSelEtaPiFromCasc'', 1),
     (''hSelEtaPiFromCharm'', 1), (''hSelRadCasc'', 1), (''hSelRadV0'', 1),
     (''hSelCosPACasc'', 1), (''hSelCosPAV0'', 1), (''hSelDCACascDau'', 1),
     (''hSelDCAV0Dau'', 1), (''hSelDCACharmDau'', 1), (''hSelDcaXYToPvV0Daughters'', 1),
     (''hSelDcaXYToPvPiFromCasc'', 1), (''hSelDCAXYPrimPi'', 1), (''hSelDCAZPrimPi'', 1),
     (''hSelDCAXYCasc'', 1), (''hSelDCAZCasc'', 1), (''hSelPtPiFromCasc'', 1),
     (''hSelPtPiFromCharm'', 1), (''hSelTPCQualityPiFromLam'', 1),
     (''hSelTPCQualityPrFromLam'', 1), (''hSelTPCQualityPiFromCasc'', 1),
     (''hSelTPCQualityPiFromCharm'', 1), (''hSelITSQualityPiFromCharm'', 1)]"
  unfolding topoSelections_def Let_def
  by (simp add: snd_applyCut fill_def cfgDefault_def exampleCandidate_def pionTrack_def
        protonTrack_def bachelorTrack_def charmBachelorTrack_def exampleExternals_simps
        example_radii)

text \<open>
  C2, as the claim states it, fails: with both PID switches off and one candidate, the
  run aborts only after the sign histogram and all twenty-four selection histograms of
  that candidate have been filled; with no candidate, the same configuration does not
  abort at all.
\<close>

theorem abort_before_any_candidate_counterexample:
  "usePidTpcOnly (cfgDefault\<lparr>usePidTpcTofCombined := False\<rparr>)
     = usePidTpcTofCombined (cfgDefault\<lparr>usePidTpcTofCombined := False\<rparr>)
   \<and> selectorProcess (cfgDefault\<lparr>usePidTpcTofCombined := False\<rparr>) exampleExternals
        exampleTracks exampleLfTracks [exampleCandidate] emptyState =
      Inl (Fatal ''Check the PID configurables, usePidTpcOnly and usePidTpcTofCombined can't have the same value''
        \<lparr>registry = [(''hSelSignDec'', 1),
           (''hSelEtaPosV0Dau'', 1), (''hSelEtaNegV0Dau'', 1), (''hSelEtaPiFromCasc'', 1),
           (''hSelEtaPiFromCharm'', 1), (''hSelRadCasc'', 1), (''hSelRadV0'', 1),
           (''hSelCosPACasc'', 1), (''hSelCosPAV0'', 1), (''hSelDCACascDau'', 1),
           (''hSelDCAV0Dau'', 1), (''hSelDCACharmDau'', 1), (''hSelDcaXYToPvV0Daughters'', 1),
           (''hSelDcaXYToPvPiFromCasc'', 1), (''hSelDCAXYPrimPi'', 1), (''hSelDCAZPrimPi'', 1),
           (''hSelDCAXYCasc'', 1), (''hSelDCAZCasc'', 1), (''hSelPtPiFromCasc'', 1),
           (''hSelPtPiFromCharm'', 1), (''hSelTPCQualityPiFromLam'', 1),
           (''hSelTPCQualityPrFromLam'', 1), (''hSelTPCQualityPiFromCasc'', 1),
           (''hSelTPCQualityPiFromCharm'', 1), (''hSelITSQualityPiFromCharm'', 1)],
         hfSelToXiPi = [], hInvMassCharmBaryon = []\<rparr>)
   \<and> selectorProcess (cfgDefault\<lparr>usePidTpcTofCombined := False\<rparr>) exampleExternals
        exampleTracks exampleLfTracks [] emptyState = Inr emptyState"
proof -
  have b: "usePidTpcOnly (cfgDefault\<lparr>usePidTpcTofCombined := False\<rparr>)
     = usePidTpcTofCombined (cfgDefault\<lparr>usePidTpcTofCombined := False\<rparr>)"
    by (simp add: cfgDefault_def)
  show ?thesis
    using b
    by (simp add: processCandidate_fatal [OF b] example_ids example_lookups snd_trackRoles
          example_topo_registry fill_def emptyState_def)
qed

text \<open>
  C2, amended. With an invalid PID configuration (both switches on or both off) the run
  aborts while it processes the first candidate: no row has been appended and nothing
  has gone to the invariant-mass histogram, but the registry holds the fill of the sign
  histogram (if the sign is not zero) and the twenty-four fills of the selections of that
  candidate (twenty-one without the light-flavour track selection). With no candidate,
  the run ends without abort. With a valid configuration no run aborts.
\<close>

theorem abort_at_first_candidate:
  "(usePidTpcOnly c = usePidTpcTofCombined c \<longrightarrow>
      selectorProcess c ext tracks lfTracks [] s = Inr s
      \<and> (\<exists>msg s'. selectorProcess c ext tracks lfTracks (cand # cands) s = Inl (Fatal msg s')
           \<and> hfSelToXiPi s' = hfSelToXiPi s
           \<and> hInvMassCharmBaryon s' = hInvMassCharmBaryon s
           \<and> registry s' =
               snd (topoSelections c ext cand
                 (if 0 < sint (signDecay cand) then lfTracks (posTrackId cand)
                  else lfTracks (negTrackId cand))
                 (if 0 < sint (signDecay cand) then lfTracks (negTrackId cand)
                  else lfTracks (posTrackId cand))
                 (lfTracks (bachelorId cand)) (tracks (bachelorFromCharmBaryonId cand))
                 (snd (trackRoles (lfTracks (posTrackId cand)) (lfTracks (negTrackId cand))
                        (signDecay cand) (registry s))))
           \<and> length (registry s') =
               length (registry s) + (if sint (signDecay cand) = 0 then 0 else 1)
                 + (if applyTrkSelLf c then 24 else 21)))
   \<and> (usePidTpcOnly c \<noteq> usePidTpcTofCombined c \<longrightarrow>
        (\<exists>s'. selectorProcess c ext tracks lfTracks cands s = Inr s'))"
proof (intro conjI impI)
  show "selectorProcess c ext tracks lfTracks [] s = Inr s"
    by simp
next
  assume b: "usePidTpcOnly c = usePidTpcTofCombined c"
  show "\<exists>msg s'. selectorProcess c ext tracks lfTracks (cand # cands) s = Inl (Fatal msg s')
           \<and> hfSelToXiPi s' = hfSelToXiPi s
           \<and> hInvMassCharmBaryon s' = hInvMassCharmBaryon s
           \<and> registry s' =
               snd (topoSelections c ext cand
                 (if 0 < sint (signDecay cand) then lfTracks (posTrackId cand)
                  else lfTracks (negTrackId cand))
                 (if 0 < sint (signDecay cand) then lfTracks (negTrackId cand)
                  else lfTracks (posTrackId cand))
                 (lfTracks (bachelorId cand)) (tracks (bachelorFromCharmBaryonId cand))
                 (snd (trackRoles (lfTracks (posTrackId cand)) (lfTracks (negTrackId cand))
                        (signDecay cand) (registry s))))
           \<and> length (registry s') =
               length (registry s) + (if sint (signDecay cand) = 0 then 0 else 1)
                 + (if applyTrkSelLf c then 24 else 21)"
    by (simp add: processCandidate_fatal [OF b] length_topoSelections length_trackRoles)
next
  assume "usePidTpcOnly c \<noteq> usePidTpcTofCombined c"
  from selectorProcess_rows [OF this, of ext tracks lfTracks cands s]
  show "\<exists>s'. selectorProcess c ext tracks lfTracks cands s = Inr s'"
    by blast
qed

theorem abort_at_first_candidate_witness:
  "usePidTpcOnly (cfgDefault\<lparr>usePidTpcOnly := True\<rparr>)
     = usePidTpcTofCombined (cfgDefault\<lparr>usePidTpcOnly := True\<rparr>)
   \<and> selectorProcess (cfgDefault\<lparr>usePidTpcOnly := True\<rparr>) exampleExternals exampleTracks
        exampleLfTracks [] emptyState = Inr emptyState
   \<and> (\<exists>msg s'. selectorProcess (cfgDefault\<lparr>usePidTpcOnly := True\<rparr>) exampleExternals
          exampleTracks exampleLfTracks [exampleCandidate, lowRadiusCandidate] emptyState
            = Inl (Fatal msg s')
        \<and> hfSelToXiPi s' = [] \<and> hInvMassCharmBaryon s' = [] \<and> length (registry s') = 25)
   \<and> usePidTpcOnly cfgDefault \<noteq> usePidTpcTofCombined cfgDefault
   \<and> (\<exists>s'. selectorProcess cfgDefault exampleExternals exampleTracks exampleLfTracks
          [exampleCandidate, lowRadiusCandidate] emptyState = Inr s')"
proof -
  let ?bad = "cfgDefault\<lparr>usePidTpcOnly := True\<rparr>"
  have b: "usePidTpcOnly ?bad = usePidTpcTofCombined ?bad"
    by (simp add: cfgDefault_def)
  have v: "usePidTpcOnly cfgDefault \<noteq> usePidTpcTofCombined cfgDefault"
    by (simp add: cfgDefault_def)
  have e: "hfSelToXiPi emptyState = []" "hInvMassCharmBaryon emptyState = []"
    "length (registry emptyState) = 0" "applyTrkSelLf ?bad"
    by (simp_all add: emptyState_def cfgDefault_def)
  note B = abort_at_first_candidate [of ?bad exampleExternals exampleTracks exampleLfTracks
      emptyState exampleCandidate "[lowRadiusCandidate]"]
  note V = abort_at_first_candidate [of cfgDefault exampleExternals exampleTracks
      exampleLfTracks emptyState exampleCandidate "[exampleCandidate, lowRadiusCandidate]"]
  from B b have n: "selectorProcess ?bad exampleExternals exampleTracks exampleLfTracks []
      emptyState = Inr emptyState"
    by blast
  from B b obtain msg s'
    where f: "selectorProcess ?bad exampleExternals exampleTracks exampleLfTracks
                [exampleCandidate, lowRadiusCandidate] emptyState = Inl (Fatal msg s')"
      and h: "hfSelToXiPi s' = hfSelToXiPi emptyState"
        "hInvMassCharmBaryon s' = hInvMassCharmBaryon emptyState"
        "length (registry s') =
           length (registry emptyState) + (if sint (signDecay exampleCandidate) = 0 then 0 else 1)
             + (if applyTrkSelLf ?bad then 24 else 21)"
    by blast
  have "hfSelToXiPi s' = []" "hInvMassCharmBaryon s' = []" "length (registry s') = 25"
    using h by (simp_all add: e example_ids)
  with f have a: "\<exists>msg s'. selectorProcess ?bad exampleExternals
          exampleTracks exampleLfTracks [exampleCandidate, lowRadiusCandidate] emptyState
            = Inl (Fatal msg s')
        \<and> hfSelToXiPi s' = [] \<and> hInvMassCharmBaryon s' = [] \<and> length (registry s') = 25"
    by blast
  from V v have "\<exists>s'. selectorProcess cfgDefault exampleExternals exampleTracks exampleLfTracks
          [exampleCandidate, lowRadiusCandidate] emptyState = Inr s'"
    by blast
  with b n a v show ?thesis by (intro conjI)
qed

text \<open>
  C7. With a valid PID configuration the run over any sequence of candidates does not
  abort and appends one row per candidate, in the order of the candidates: the row at
  each position is the row that the loop body appends for the candidate at that position,
  from any state. Whatever the flags of the row, its two bit masks record which of the
  four tracks (pion and proton from the Lambda, pion from the cascade, pion from the
  charm baryon, bits 0 to 3) have TPC and TOF information, and its eight scores are the
  TPC and TOF sigma values of these four tracks.
\<close>

theorem one_row_per_candidate:
  assumes "usePidTpcOnly c \<noteq> usePidTpcTofCombined c"
  shows "\<exists>s' rows. selectorProcess c ext tracks lfTracks cands s = Inr s'
    \<and> hfSelToXiPi s' = hfSelToXiPi s @ rows
    \<and> length rows = length cands
    \<and> list_all2 (\<lambda>cand row.
         (\<forall>s0. \<exists>s1. processCandidate c ext tracks lfTracks cand s0 = Inr s1
                  \<and> hfSelToXiPi s1 = hfSelToXiPi s0 @ [row])
         \<and> (let trackPiFromLam = (if 0 < sint (signDecay cand) then lfTracks (posTrackId cand)
                                  else lfTracks (negTrackId cand));
                 trackPrFromLam = (if 0 < sint (signDecay cand) then lfTracks (negTrackId cand)
                                  else lfTracks (posTrackId cand));
                 trackPiFromCasc = lfTracks (bachelorId cand);
                 trackPiFromCharm = tracks (bachelorFromCharmBaryonId cand)
             in infoTpcStored row =
                  (if hasTPC trackPiFromLam then 1 else 0)
                  + (if hasTPC trackPrFromLam then 2 else 0)
                  + (if hasTPC trackPiFromCasc then 4 else 0)
                  + (if hasTPC trackPiFromCharm then 8 else 0)
              \<and> infoTofStored row =
                  (if hasTOF trackPiFromLam then 1 else 0)
                  + (if hasTOF trackPrFromLam then 2 else 0)
                  + (if hasTOF trackPiFromCasc then 4 else 0)
                  + (if hasTOF trackPiFromCharm then 8 else 0)
              \<and> tpcNSigmaPiFromCharmBaryon row = tpcNSigmaPi trackPiFromCharm
              \<and> tpcNSigmaPiFromCasc row = tpcNSigmaPi trackPiFromCasc
              \<and> tpcNSigmaPiFromLambda row = tpcNSigmaPi trackPiFromLam
              \<and> tpcNSigmaPrFromLambda row = tpcNSigmaPr trackPrFromLam
              \<and> tofNSigmaPiFromCharmBaryon row = tofNSigmaPi trackPiFromCharm
              \<and> tofNSigmaPiFromCasc row = tofNSigmaPi trackPiFromCasc
              \<and> tofNSigmaPiFromLambda row = tofNSigmaPi trackPiFromLam
              \<and> tofNSigmaPrFromLambda row = tofNSigmaPr trackPrFromLam))
       cands rows"
proof -
  let ?rows = "map (emittedRow c ext tracks lfTracks) cands"
  from selectorProcess_rows [OF assms, of ext tracks lfTracks cands s] obtain s'
    where p: "selectorProcess c ext tracks lfTracks cands s = Inr s'"
      and r: "hfSelToXiPi s' = hfSelToXiPi s @ ?rows"
    by blast
  have each: "\<forall>s0. \<exists>s1. processCandidate c ext tracks lfTracks cand s0 = Inr s1
      \<and> hfSelToXiPi s1 = hfSelToXiPi s0 @ [emittedRow c ext tracks lfTracks cand]" for cand
    using processCandidate_row [OF assms, of ext tracks lfTracks cand] by blast
  have "list_all2 (\<lambda>cand row.
         (\<forall>s0. \<exists>s1. processCandidate c ext tracks lfTracks cand s0 = Inr s1
                  \<and> hfSelToXiPi s1 = hfSelToXiPi s0 @ [row])
         \<and> (let trackPiFromLam = (if 0 < sint (signDecay cand) then lfTracks (posTrackId cand)
                                  else lfTracks (negTrackId cand));
                 trackPrFromLam = (if 0 < sint (signDecay cand) then lfTracks (negTrackId cand)
                                  else lfTracks (posTrackId cand));
                 trackPiFromCasc = lfTracks (bachelorId cand);
                 trackPiFromCharm = tracks (bachelorFromCharmBaryonId cand)
             in infoTpcStored row =
                  (if hasTPC trackPiFromLam then 1 else 0)
                  + (if hasTPC trackPrFromLam then 2 else 0)
                  + (if hasTPC trackPiFromCasc then 4 else 0)
                  + (if hasTPC trackPiFromCharm then 8 else 0)
              \<and> infoTofStored row =
                  (if hasTOF trackPiFromLam then 1 else 0)
                  + (if hasTOF trackPrFromLam then 2 else 0)
                  + (if hasTOF trackPiFromCasc then 4 else 0)
                  + (if hasTOF trackPiFromCharm then 8 else 0)
              \<and> tpcNSigmaPiFromCharmBaryon row = tpcNSigmaPi trackPiFromCharm
              \<and> tpcNSigmaPiFromCasc row = tpcNSigmaPi trackPiFromCasc
              \<and> tpcNSigmaPiFromLambda row = tpcNSigmaPi trackPiFromLam
              \<and> tpcNSigmaPrFromLambda row = tpcNSigmaPr trackPrFromLam
              \<and> tofNSigmaPiFromCharmBaryon row = tofNSigmaPi trackPiFromCharm
              \<and> tofNSigmaPiFromCasc row = tofNSigmaPi trackPiFromCasc
              \<and> tofNSigmaPiFromLambda row = tofNSigmaPi trackPiFromLam
              \<and> tofNSigmaPrFromLambda row = tofNSigmaPr trackPrFromLam))
       cands ?rows"
    unfolding list_all2_map2 Let_def
    by (rule list_all2_refl)
       (simp only: each emittedRow_info emittedRow_sigmas storedInfoTpc_bits storedInfoTof_bits
          simp_thms)
  with p r show ?thesis
    by (intro exI [of _ s'] exI [of _ ?rows]) simp
qed

theorem one_row_per_candidate_witness:
  "usePidTpcOnly cfgDefault \<noteq> usePidTpcTofCombined cfgDefault
   \<and> (\<exists>s' row1 row2. selectorProcess cfgDefault exampleExternals exampleTracks exampleLfTracks
          [exampleCandidate, lowRadiusCandidate\<lparr>signDecay := - 1\<rparr>] emptyState = Inr s'
        \<and> hfSelToXiPi s' = [row1, row2]
        \<and> infoTpcStored row1 = 15 \<and> infoTofStored row1 = 7
        \<and> tpcNSigmaPiFromLambda row1 = 0.5 \<and> tpcNSigmaPrFromLambda row1 = 0.25
        \<and> tpcNSigmaPiFromCasc row1 = - 1.5 \<and> tpcNSigmaPiFromCharmBaryon row1 = 2
        \<and> infoTpcStored row2 = 15 \<and> infoTofStored row2 = 7
        \<and> tpcNSigmaPiFromLambda row2 = 8 \<and> tpcNSigmaPrFromLambda row2 = 6
        \<and> tpcNSigmaPiFromCasc row2 = - 1.5 \<and> tpcNSigmaPiFromCharmBaryon row2 = 2)"
proof -
  let ?second = "lowRadiusCandidate\<lparr>signDecay := - 1\<rparr>"
  have v: "usePidTpcOnly cfgDefault \<noteq> usePidTpcTofCombined cfgDefault"
    by (simp add: cfgDefault_def)
  have e: "hfSelToXiPi emptyState = []"
    by (simp add: emptyState_def)
  have ids: "posTrackId ?second = 0" "negTrackId ?second = 1" "bachelorId ?second = 2"
    "signDecay ?second = - 1"
    by (simp_all add: lowRadiusCandidate_def example_ids)
  have tr: "hasTPC pionTrack" "hasTPC protonTrack" "hasTPC bachelorTrack"
    "hasTPC charmBachelorTrack" "hasTOF pionTrack" "hasTOF protonTrack" "hasTOF bachelorTrack"
    "\<not> hasTOF charmBachelorTrack" "tpcNSigmaPi bachelorTrack = - 1.5"
    "tpcNSigmaPi charmBachelorTrack = 2"
    by (simp_all add: pionTrack_def protonTrack_def bachelorTrack_def charmBachelorTrack_def)
  from one_row_per_candidate [OF v, of exampleExternals exampleTracks exampleLfTracks
      "[exampleCandidate, ?second]" emptyState]
  show ?thesis
    using v
    by (simp add: list_all2_Cons1 e example_ids ids example_lookups example_sigmas tr Let_def)
      blast
qed

section \<open>Properties of the secondary-vertex finder\<close>

lemma sint_index:
  assumes "- (2 ^ 31) \<le> k" and "k < 2 ^ 31"
  shows "sint (word_of_int k :: 32 word) = k"
  using assms by (simp add: sint_sbintrunc' signed_take_bit_int_eq_self)

lemma sint_position:
  assumes "- (2 ^ 31) \<le> first" and "first + int n \<le> 2 ^ 31" and "i < n"
  shows "sint (word_of_int (first + int i) :: 32 word) = first + int i"
  using assms by (intro sint_index) simp_all

text \<open>Past the largest 32-bit integer a stored index wraps around.\<close>

lemma stored_index_wraps:
  "map (\<lambda>r. (sint (index0 r), sint (index1 r)))
     (secvtx (emitVertex df 2147483646 tracks 0 2 ic emptyVertexerState))
   = [(2147483646, - 2147483648)]"
  by (simp add: emitVertex_def Let_def emptyVertexerState_def)

lemma secvtx_emitVertex:
  "secvtx (emitVertex df first tracks i j ic s) =
     secvtx s @
       [\<lparr>posx = vtxX (getPCACandidate df (trackParCov (tracks ! i)) (trackParCov (tracks ! j))
                      (int ic)),
         posy = vtxY (getPCACandidate df (trackParCov (tracks ! i)) (trackParCov (tracks ! j))
                      (int ic)),
         index0 = word_of_int (first + int i), index1 = word_of_int (first + int j),
         index2 = - 1,
         tracky0 = trackY (tracks ! i), tracky1 = trackY (tracks ! j), tracky2 = - 1\<rparr>]"
  by (simp add: emitVertex_def Let_def)

lemma secvtx_fold_emitVertex:
  "secvtx (fold (emitVertex df first tracks i j) ics s) =
     secvtx s @ map (\<lambda>ic.
       \<lparr>posx = vtxX (getPCACandidate df (trackParCov (tracks ! i)) (trackParCov (tracks ! j))
                      (int ic)),
        posy = vtxY (getPCACandidate df (trackParCov (tracks ! i)) (trackParCov (tracks ! j))
                      (int ic)),
        index0 = word_of_int (first + int i), index1 = word_of_int (first + int j),
        index2 = - 1,
        tracky0 = trackY (tracks ! i), tracky1 = trackY (tracks ! j), tracky2 = - 1\<rparr>) ics"
  by (induction ics arbitrary: s) (simp_all add: secvtx_emitVertex)

lemma secvtx_fitPair:
  "secvtx (fitPair df first tracks i j s) = secvtx s @ vertexRows df first tracks i j"
  by (simp add: fitPair_def Let_def secvtx_fold_emitVertex vertexRows_def)

lemma secvtx_inner_loop:
  "secvtx (fold (fitPair df first tracks i) js s) =
     secvtx s @ concat (map (vertexRows df first tracks i) js)"
  by (induction js arbitrary: s) (simp_all add: secvtx_fitPair)

lemma secvtx_outer_loop:
  "secvtx (fold (\<lambda>it_0 s.
            fold (fitPair df first tracks it_0) [Suc it_0..<n]
              (s\<lparr>hindex_0_coll := hindex_0_coll s @ [real_of_int (first + int it_0)]\<rparr>))
         is s) =
   secvtx s @ concat (map (\<lambda>i. concat (map (vertexRows df first tracks i) [Suc i..<n])) is)"
  by (induction "is" arbitrary: s) (simp_all add: secvtx_inner_loop)

lemma secvtx_vertexerProcess:
  "secvtx (vertexerProcess df first tracks s) =
     secvtx s @ concat (map (\<lambda>i. concat (map (vertexRows df first tracks i)
                                          [Suc i..<length tracks])) [0..<length tracks])"
  unfolding vertexerProcess_def by (rule secvtx_outer_loop)

lemma vertexRows_fields:
  assumes "r \<in> set (vertexRows df first tracks i j)"
  shows "index0 r = word_of_int (first + int i)" "index1 r = word_of_int (first + int j)"
    "index2 r = - 1" "tracky0 r = trackY (tracks ! i)" "tracky1 r = trackY (tracks ! j)"
    "tracky2 r = - 1"
  using assms by (auto simp: vertexRows_def)

lemma length_vertexRows:
  "length (vertexRows df first tracks i j) =
     nat (fitterProcess df (trackParCov (tracks ! i)) (trackParCov (tracks ! j)))"
  by (simp add: vertexRows_def)

lemma filter_vertexRows:
  assumes "- (2 ^ 31) \<le> first" and "first + int n \<le> 2 ^ 31" and "i' < n" and "j' < n"
  shows "filter (\<lambda>r. sint (index0 r) = first + int i \<and> sint (index1 r) = first + int j)
     (vertexRows df first tracks i' j') =
   (if i' = i \<and> j' = j then vertexRows df first tracks i j else [])"
  using sint_position [OF assms(1,2,3)] sint_position [OF assms(1,2,4)]
  by (auto simp: vertexRows_def filter_empty_conv intro!: filter_True)

lemma sum_list_delta_upt:
  "sum_list (map (\<lambda>x. if x = a then c else 0) [m..<n]) = (if m \<le> a \<and> a < n then c else (0::nat))"
  by (induction n) auto

lemma length_filter_concat_map:
  "length (filter P (concat (map f xs))) = sum_list (map (\<lambda>x. length (filter P (f x))) xs)"
  by (induction xs) simp_all

lemma count_inner_loop:
  assumes "- (2 ^ 31) \<le> first" and "first + int n \<le> 2 ^ 31" and "i' < n"
  shows "length (filter (\<lambda>r. sint (index0 r) = first + int i \<and> sint (index1 r) = first + int j)
     (concat (map (vertexRows df first tracks i') [Suc i'..<n]))) =
   (if i' = i \<and> i < j \<and> j < n
    then nat (fitterProcess df (trackParCov (tracks ! i)) (trackParCov (tracks ! j))) else 0)"
proof -
  let ?N = "nat (fitterProcess df (trackParCov (tracks ! i)) (trackParCov (tracks ! j)))"
  have "map (\<lambda>j'. length (filter (\<lambda>r. sint (index0 r) = first + int i
                                    \<and> sint (index1 r) = first + int j)
                  (vertexRows df first tracks i' j'))) [Suc i'..<n] =
        map (\<lambda>j'. if j' = j then (if i' = i then ?N else 0) else 0) [Suc i'..<n]"
    by (rule map_cong [OF refl])
       (simp add: filter_vertexRows [OF assms] length_vertexRows)
  then have "length (filter (\<lambda>r. sint (index0 r) = first + int i \<and> sint (index1 r) = first + int j)
     (concat (map (vertexRows df first tracks i') [Suc i'..<n]))) =
     (if Suc i' \<le> j \<and> j < n then (if i' = i then ?N else 0) else 0)"
    by (simp only: length_filter_concat_map sum_list_delta_upt)
  then show ?thesis
    by (auto simp: Suc_le_eq)
qed

lemma count_vertexerProcess:
  assumes "- (2 ^ 31) \<le> first" and "first + int n \<le> 2 ^ 31"
  shows "length (filter (\<lambda>r. sint (index0 r) = first + int i \<and> sint (index1 r) = first + int j)
     (concat (map (\<lambda>i'. concat (map (vertexRows df first tracks i') [Suc i'..<n])) [0..<n]))) =
   (if i < j \<and> j < n
    then nat (fitterProcess df (trackParCov (tracks ! i)) (trackParCov (tracks ! j))) else 0)"
proof -
  let ?N = "nat (fitterProcess df (trackParCov (tracks ! i)) (trackParCov (tracks ! j)))"
  have "map (\<lambda>i'. length (filter (\<lambda>r. sint (index0 r) = first + int i
                                    \<and> sint (index1 r) = first + int j)
                  (concat (map (vertexRows df first tracks i') [Suc i'..<n])))) [0..<n] =
        map (\<lambda>i'. if i' = i then (if i < j \<and> j < n then ?N else 0) else 0) [0..<n]"
    by (rule map_cong [OF refl]) (simp add: count_inner_loop [OF assms])
  then have "length (filter (\<lambda>r. sint (index0 r) = first + int i \<and> sint (index1 r) = first + int j)
     (concat (map (\<lambda>i'. concat (map (vertexRows df first tracks i') [Suc i'..<n])) [0..<n]))) =
     (if 0 \<le> i \<and> i < n then (if i < j \<and> j < n then ?N else 0) else 0)"
    by (simp only: length_filter_concat_map sum_list_delta_upt)
  then show ?thesis
    by auto
qed

text \<open>
  C10. Let the indices of the tracks fit the 32-bit index columns: \<open>first\<close> is at least
  \<open>-2^31\<close> and \<open>first\<close> plus the number of tracks is at most \<open>2^31\<close>. Then the rows
  that the secondary-vertex finder appends come from pairs of positions \<open>i < j\<close> of the
  track sequence: each row holds in \<open>index0\<close> the index \<open>first + i\<close> and in \<open>index1\<close>
  the index \<open>first + j\<close> of such a pair, hence \<open>index0 < index1\<close> and the two are
  different, the \<open>y\<close> of these two tracks, and the values -1 in \<open>index2\<close> and
  \<open>tracky2\<close>. Each pair is visited once: the number of rows for the pair \<open>i < j\<close> is the
  number of candidates the fitter reports for it, and there is no row for any other pair
  of indices.
\<close>

theorem secvtx_rows_from_ordered_pairs:
  assumes "- (2 ^ 31) \<le> first" and "first + int (length tracks) \<le> 2 ^ 31"
  shows "\<exists>new. secvtx (vertexerProcess df first tracks s) = secvtx s @ new
     \<and> (\<forall>r \<in> set new. \<exists>i j. i < j \<and> j < length tracks
           \<and> sint (index0 r) = first + int i \<and> sint (index1 r) = first + int j
           \<and> sint (index0 r) < sint (index1 r) \<and> index0 r \<noteq> index1 r
           \<and> tracky0 r = trackY (tracks ! i) \<and> tracky1 r = trackY (tracks ! j)
           \<and> index2 r = - 1 \<and> tracky2 r = - 1)
     \<and> (\<forall>i j. length (filter (\<lambda>r. sint (index0 r) = first + int i
                                  \<and> sint (index1 r) = first + int j) new) =
           (if i < j \<and> j < length tracks
            then nat (fitterProcess df (trackParCov (tracks ! i)) (trackParCov (tracks ! j)))
            else 0))"
proof -
  let ?new = "concat (map (\<lambda>i. concat (map (vertexRows df first tracks i)
                [Suc i..<length tracks])) [0..<length tracks])"
  have "\<exists>i j. i < j \<and> j < length tracks
           \<and> sint (index0 r) = first + int i \<and> sint (index1 r) = first + int j
           \<and> sint (index0 r) < sint (index1 r) \<and> index0 r \<noteq> index1 r
           \<and> tracky0 r = trackY (tracks ! i) \<and> tracky1 r = trackY (tracks ! j)
           \<and> index2 r = - 1 \<and> tracky2 r = - 1" if "r \<in> set ?new" for r
  proof -
    from that obtain i j where ij: "i < j" "j < length tracks"
      and r: "r \<in> set (vertexRows df first tracks i j)"
      by (auto simp: Suc_le_eq)
    from ij have i: "i < length tracks" by simp
    have s0: "sint (index0 r) = first + int i"
      using vertexRows_fields(1) [OF r] sint_position [OF assms i] by simp
    have s1: "sint (index1 r) = first + int j"
      using vertexRows_fields(2) [OF r] sint_position [OF assms ij(2)] by simp
    from s0 s1 ij have "sint (index0 r) < sint (index1 r)" by simp
    then have "index0 r \<noteq> index1 r" by auto
    with s0 s1 ij vertexRows_fields(3-) [OF r] show ?thesis
      by (intro exI [of _ i] exI [of _ j]) simp
  qed
  then show ?thesis
    using secvtx_vertexerProcess [of df first tracks s]
      count_vertexerProcess [OF assms, of _ _ df tracks]
    by (intro exI [of _ ?new]) simp
qed

lemma example_fitter:
  "fitterProcess exampleFitter (trackParCov (exampleRows ! 0)) (trackParCov (exampleRows ! 2)) = 2"
  "fitterProcess exampleFitter (trackParCov (exampleRows ! 0)) (trackParCov (exampleRows ! Suc 0))
     = - 1"
  by (simp_all add: exampleFitter_def exampleRows_def exampleRow_def trackParCov_def)

theorem secvtx_rows_from_ordered_pairs_witness:
  "- (2 ^ 31) \<le> (10 :: int) \<and> 10 + int (length exampleRows) \<le> 2 ^ 31
   \<and> (\<exists>new. secvtx (vertexerProcess exampleFitter 10 exampleRows emptyVertexerState) = new
     \<and> (\<forall>r \<in> set new. sint (index0 r) < sint (index1 r) \<and> index0 r \<noteq> index1 r
           \<and> index2 r = - 1 \<and> tracky2 r = - 1)
     \<and> length (filter (\<lambda>r. sint (index0 r) = 10 \<and> sint (index1 r) = 12) new) = 2
     \<and> length (filter (\<lambda>r. sint (index0 r) = 10 \<and> sint (index1 r) = 11) new) = 0
     \<and> length (filter (\<lambda>r. sint (index0 r) = 12 \<and> sint (index1 r) = 10) new) = 0)"
proof -
  have l: "length exampleRows = 3"
    by (simp add: exampleRows_def)
  have b: "- (2 ^ 31) \<le> (10 :: int)" "10 + int (length exampleRows) \<le> 2 ^ 31"
    by (simp_all add: l)
  from secvtx_rows_from_ordered_pairs [OF b, of exampleFitter emptyVertexerState]
  obtain new
    where n: "secvtx (vertexerProcess exampleFitter 10 exampleRows emptyVertexerState)
                = secvtx emptyVertexerState @ new"
      and o: "\<forall>r \<in> set new. \<exists>i j. i < j \<and> j < length exampleRows
           \<and> sint (index0 r) = 10 + int i \<and> sint (index1 r) = 10 + int j
           \<and> sint (index0 r) < sint (index1 r) \<and> index0 r \<noteq> index1 r
           \<and> tracky0 r = trackY (exampleRows ! i) \<and> tracky1 r = trackY (exampleRows ! j)
           \<and> index2 r = - 1 \<and> tracky2 r = - 1"
      and c: "\<And>i j. length (filter (\<lambda>r. sint (index0 r) = 10 + int i
                                      \<and> sint (index1 r) = 10 + int j) new) =
           (if i < j \<and> j < length exampleRows
            then nat (fitterProcess exampleFitter (trackParCov (exampleRows ! i))
                        (trackParCov (exampleRows ! j)))
            else 0)"
    by blast
  have "secvtx (vertexerProcess exampleFitter 10 exampleRows emptyVertexerState) = new"
    using n by (simp add: emptyVertexerState_def)
  moreover have "\<forall>r \<in> set new. sint (index0 r) < sint (index1 r) \<and> index0 r \<noteq> index1 r
      \<and> index2 r = - 1 \<and> tracky2 r = - 1"
    using o by blast
  moreover have "length (filter (\<lambda>r. sint (index0 r) = 10 \<and> sint (index1 r) = 12) new) = 2"
    using c [of 0 2] by (simp add: l example_fitter)
  moreover have "length (filter (\<lambda>r. sint (index0 r) = 10 \<and> sint (index1 r) = 11) new) = 0"
    using c [of 0 1] by (simp add: l example_fitter)
  moreover have "length (filter (\<lambda>r. sint (index0 r) = 12 \<and> sint (index1 r) = 10) new) = 0"
    using c [of 2 0] by (simp add: l)
  ultimately show ?thesis using b by blast
qed

end
